theory Spec2Isabelle
  imports Complex_Main "HOL-Library.Sublist"
begin

section \<open>Strings\<close>

text \<open>
  The kernel synthesizer builds Python source text with f-strings. The three string
  operations it uses are \<^verbatim>\<open>str(i)\<close> on an index, \<^verbatim>\<open>sep.join(xs)\<close> and
  \<^verbatim>\<open>s.split(".")\<close>; \<^verbatim>\<open>s.startswith(p)\<close> is \<^const>\<open>prefix\<close>.
\<close>

fun string_of_nat :: "nat \<Rightarrow> string" where
  "string_of_nat n =
     (if n < 10 then [''0123456789'' ! n]
      else string_of_nat (n div 10) @ [''0123456789'' ! (n mod 10)])"

declare string_of_nat.simps [simp del]

fun join :: "string \<Rightarrow> string list \<Rightarrow> string" where
  "join sep [] = []"
| "join sep [x] = x"
| "join sep (x # y # ys) = x @ sep @ join sep (y # ys)"

fun split_on :: "char \<Rightarrow> string \<Rightarrow> string list" where
  "split_on c [] = [[]]"
| "split_on c (x # xs) =
     (if x = c then [] # split_on c xs
      else (case split_on c xs of p # ps \<Rightarrow> (x # p) # ps | [] \<Rightarrow> [[x]]))"


section \<open>The fragment of Python the synthesizer emits\<close>

text \<open>
  Every source text the synthesizer emits is one function definition whose body is a
  single \<^verbatim>\<open>return\<close> of an expression built from names, attribute access, integer
  literals, calls and binary operators. \<^term>\<open>render\<close> writes such an expression the way
  the f-strings of scalar.py do: arguments separated by a comma and a blank, binary
  operators without blanks, a chain of one operator nested to the left without
  parentheses (Python's binary operators associate to the left).
\<close>

datatype pyexpr =
    Name string
  | Attribute pyexpr string
  | Num nat
  | Call pyexpr "pyexpr list"
  | BinOp pyexpr string pyexpr

datatype pystmt = FunctionDef string "string list" pyexpr

fun render :: "pyexpr \<Rightarrow> string" where
  "render (Name n) = n"
| "render (Attribute e a) = render e @ ''.'' @ a"
| "render (Num k) = string_of_nat k"
| "render (Call f args) = render f @ ''('' @ join '', '' (map render args) @ '')''"
| "render (BinOp l op r) =
     (case l of BinOp _ op' _ \<Rightarrow> if op' = op then render l else ''('' @ render l @ '')''
              | _ \<Rightarrow> render l)
     @ op @
     (case r of BinOp _ _ _ \<Rightarrow> ''('' @ render r @ '')'' | _ \<Rightarrow> render r)"

fun render_def :: "pystmt \<Rightarrow> string" where
  "render_def (FunctionDef f params body) =
     ''def '' @ f @ ''('' @ join '', '' params @ ''):\<newline>    return '' @ render body"

text \<open>The number of calls, anywhere in an expression, whose callee is the name \<open>f\<close>.\<close>

fun calls_to :: "string \<Rightarrow> pyexpr \<Rightarrow> nat" where
  "calls_to f (Name n) = 0"
| "calls_to f (Attribute e a) = calls_to f e"
| "calls_to f (Num k) = 0"
| "calls_to f (Call g args) =
     (if g = Name f then 1 else 0) + calls_to f g + sum_list (map (calls_to f) args)"
| "calls_to f (BinOp l op r) = calls_to f l + calls_to f r"


section \<open>Data model\<close>

datatype py_error =
    AttributeError string
  | ValueError string
  | TypeError string
  | NameError string
  | SyntaxError string
  | NotImplementedError

type_synonym dtype = string

text \<open>A graph variable: the name it goes by and the dtype of its scalar type.\<close>

record variable =
  var_name :: string
  var_dtype :: dtype

text \<open>An apply node, as far as lowering reads it: \<^verbatim>\<open>node.inputs\<close>, \<^verbatim>\<open>node.outputs\<close>.\<close>

record apply_node =
  inputs :: "variable list"
  outputs :: "variable list"

text \<open>
  A scalar operator: \<^verbatim>\<open>hasattr(op, "nfunc_spec")\<close> is \<^term>\<open>nfunc_spec op \<noteq> None\<close>; the
  descriptor is the triple of the dotted path, the number of inputs and of outputs.
\<close>

record scalar_op =
  op_name :: string
  nfunc_spec :: "(string \<times> nat \<times> nat) option"

text \<open>
  The object \<^verbatim>\<open>wrap_cython_function\<close> returns, as far as scalar.py reads it:
  \<^verbatim>\<open>has_pyx_skip_dispatch\<close>, \<^verbatim>\<open>numpy_arg_dtypes()\<close>, \<^verbatim>\<open>numpy_output_dtype()\<close>.
\<close>

record cython_wrapper =
  cython_name :: string
  has_pyx_skip_dispatch :: bool
  numpy_arg_dtypes :: "dtype list"
  numpy_output_dtype :: dtype

text \<open>
  What \<^verbatim>\<open>scalar_func_numba\<close> can be bound to: an attribute of numpy, a wrapped Cython
  function, or the result of \<^verbatim>\<open>generate_fallback_impl\<close> (of an opaque type \<^typ>\<open>'k\<close>).
\<close>

datatype 'k impl =
    Np_attr string
  | Cython_wrapper cython_wrapper
  | Fallback_impl 'k

text \<open>The objects bound in the environment a source text is compiled in.\<close>

datatype 'k pyobj =
    Obj_impl "'k impl"
  | Obj_direct_cast
  | Obj_dtype dtype
  | Obj_module string
  | Obj_member string string

text \<open>
  \<^verbatim>\<open>compile_function_src(src, name, env)\<close> gives a Python function: its source text, the
  name of its entry point, and the bindings of \<open>env\<close> that are made per node (they come
  before those of \<^verbatim>\<open>globals()\<close>).
\<close>

record 'k pyfunc =
  fn_src :: string
  fn_entry :: string
  fn_env :: "(string \<times> 'k pyobj) list"

text \<open>
  Modelled from the spec: \<^verbatim>\<open>create_numba_signature\<close> (pytensor.link.numba.dispatch.basic)
  is not among the sources. The spec derives the call signature strictly from the input
  and output dtypes of the node (or function graph) it is given, with scalar shapes when
  \<^verbatim>\<open>force_scalar\<close> is set.
\<close>

record signature =
  sig_inputs :: "dtype list"
  sig_outputs :: "dtype list"
  sig_force_scalar :: bool

definition create_numba_signature :: "variable list \<Rightarrow> variable list \<Rightarrow> bool \<Rightarrow> signature" where
  "create_numba_signature ins outs force_scalar =
     \<lparr> sig_inputs = map var_dtype ins, sig_outputs = map var_dtype outs,
       sig_force_scalar = force_scalar \<rparr>"

text \<open>
  What is handed to \<^verbatim>\<open>numba_njit\<close>: a function compiled from synthesized source, or a
  callable an external collaborator produced.
\<close>

datatype 'k pycallable =
    Compiled "'k pyfunc"
  | External 'k

text \<open>
  The result of lowering a node: either a callable returned as it is, or
  \<^verbatim>\<open>numba_njit(signature, fastmath=..., cache=...)(fn)\<close>. The cache flag is \<^term>\<open>None\<close>
  where the call does not pass it.
\<close>

datatype 'k kernel =
    Plain 'k
  | Njit signature bool "bool option" "'k pycallable"

fun njit_cache :: "'k kernel \<Rightarrow> bool option" where
  "njit_cache (Plain k) = None"
| "njit_cache (Njit sg fm c fn) = c"

text \<open>
  The calls lowering makes to its collaborators, in the order it makes them. Lowering
  returns this list beside its result.
\<close>

datatype event =
    Getattr_np string
  | Getattr_cython_special string
  | Call_wrap_cython_function string
  | Call_generate_fallback_impl
  | Call_get_name_for_object
  | Call_unique_name_generator "string list"
  | Call_unique_names variable
  | Call_compile_function_src string string
  | Call_create_numba_signature
  | Call_numba_njit
  | Call_numba_funcify bool "string list"

text \<open>Name generation, source compilation and specialization are the synthesis work.\<close>

fun synthesis_work :: "event \<Rightarrow> bool" where
  "synthesis_work Call_get_name_for_object = True"
| "synthesis_work (Call_unique_name_generator seeds) = True"
| "synthesis_work (Call_unique_names v) = True"
| "synthesis_work (Call_compile_function_src src f) = True"
| "synthesis_work Call_create_numba_signature = True"
| "synthesis_work Call_numba_njit = True"
| "synthesis_work ev = False"

section \<open>Scalar arithmetic as the kernels see it\<close>

text \<open>
  The hand-written kernels of \<^verbatim>\<open>pytensor/link/numba/dispatch/scalar.py\<close> and the
  scalar implementations of \<^verbatim>\<open>theano/tensor/xlogx.py\<close> compute on floating-point
  scalars through numpy. Neither numpy's elementary functions nor IEEE comparison are
  given a meaning here: they are the fields of a record, so every statement below holds
  for whatever the numeric library computes (rounding, infinities and NaN included).
\<close>

record 'f npmath =
  py_eq :: "'f \<Rightarrow> 'f \<Rightarrow> bool"      \<comment> \<open>Python \<^verbatim>\<open>==\<close> on scalars\<close>
  py_lt :: "'f \<Rightarrow> 'f \<Rightarrow> bool"      \<comment> \<open>Python \<^verbatim>\<open><\<close> on scalars\<close>
  py_mul :: "'f \<Rightarrow> 'f \<Rightarrow> 'f"       \<comment> \<open>Python \<^verbatim>\<open>*\<close>\<close>
  py_neg :: "'f \<Rightarrow> 'f"              \<comment> \<open>unary minus\<close>
  np_log :: "'f \<Rightarrow> 'f"
  np_log1p :: "'f \<Rightarrow> 'f"
  np_exp :: "'f \<Rightarrow> 'f"
  np_expm1 :: "'f \<Rightarrow> 'f"
  lit_0_0 :: "'f"                    \<comment> \<open>the literal \<^verbatim>\<open>0.0\<close>\<close>
  lit_0_5 :: "'f"                    \<comment> \<open>the literal \<^verbatim>\<open>0.5\<close>\<close>

text \<open>The numeric library over the reals, used to run the definitions on concrete inputs.\<close>

definition real_npmath :: "real npmath" where
  "real_npmath =
     \<lparr> py_eq = (\<lambda>a b. a = b), py_lt = (\<lambda>a b. a < b), py_mul = (\<lambda>a b. a * b),
       py_neg = (\<lambda>a. - a), np_log = ln, np_log1p = (\<lambda>a. ln (1 + a)),
       np_exp = exp, np_expm1 = (\<lambda>a. exp a - 1), lit_0_0 = 0, lit_0_5 = 1 / 2 \<rparr>"

subsection \<open>\<^verbatim>\<open>XlogY0.st_impl\<close> (xlogx.py, lines 48-52)\<close>

text \<open>
  \<^verbatim>\<open>if x == 0.0: return 0.0\<close>, else \<^verbatim>\<open>return x * np.log(y)\<close>. The second component
  of the result lists the arguments \<^verbatim>\<open>np.log\<close> was called with, in order, so that
  "the logarithm is not evaluated" is a statement about the model.
\<close>

definition XlogY0_st_impl :: "'f npmath \<Rightarrow> 'f \<Rightarrow> 'f \<Rightarrow> 'f \<times> 'f list" where
  "XlogY0_st_impl M x y =
     (if py_eq M x (lit_0_0 M) then (lit_0_0 M, [])
      else (py_mul M x (np_log M y), [y]))"

subsection \<open>\<^verbatim>\<open>logp1mexp\<close> (scalar.py, lines 302-307)\<close>

definition logp1mexp :: "'f npmath \<Rightarrow> 'f \<Rightarrow> 'f" where
  "logp1mexp M x =
     (if py_lt M x (np_log M (lit_0_5 M)) then np_log1p M (py_neg M (np_exp M x))
      else np_log M (py_neg M (np_expm1 M x)))"

subsection \<open>\<^verbatim>\<open>clip\<close> (scalar.py, lines 229-240)\<close>

text \<open>
  \<^verbatim>\<open>numba_basic.to_scalar\<close> is not part of the sources at hand; it is a parameter,
  taking an operand of type \<^typ>\<open>'a\<close> (a scalar or a zero-dimensional array) to a scalar of
  type \<^typ>\<open>'s\<close>. The comparisons are those of \<^typ>\<open>'s\<close>; no law is assumed of them.
\<close>

definition clip :: "('a \<Rightarrow> 's::ord) \<Rightarrow> 'a \<Rightarrow> 'a \<Rightarrow> 'a \<Rightarrow> 's" where
  "clip to_scalar x_in min_in max_in =
     (let x = to_scalar x_in;
          min_scalar = to_scalar min_in;
          max_scalar = to_scalar max_in
      in if x < min_scalar then min_scalar
         else if x > max_scalar then max_scalar
         else x)"

subsection \<open>\<^verbatim>\<open>switch\<close> (scalar.py, lines 157-162)\<close>

definition switch :: "bool \<Rightarrow> 'a \<Rightarrow> 'a \<Rightarrow> 'a" where
  "switch condition x y = (if condition then x else y)"


section \<open>Running the emitted fragment\<close>

text \<open>
  A value is a scalar of the arithmetic at hand or one of the objects of the environment.
  What the binary operators compute, what an integer literal denotes and what calling an
  object does are parameters of the evaluation.
\<close>

datatype ('v, 'k) pyval =
    Scalar 'v
  | Object "'k pyobj"

record ('v, 'k) pysem =
  binop_sem :: "string \<Rightarrow> 'v \<Rightarrow> 'v \<Rightarrow> 'v"
  num_sem :: "nat \<Rightarrow> 'v"
  call_sem :: "'k pyobj \<Rightarrow> ('v, 'k) pyval list \<Rightarrow> py_error + ('v, 'k) pyval"

text \<open>
  A name is looked up among the parameters first, then in the environment. The callee is
  evaluated before the arguments, the arguments from left to right, and the first error
  ends the evaluation.
\<close>

fun eval :: "('v, 'k) pysem \<Rightarrow> (string \<times> 'k pyobj) list \<Rightarrow> (string \<times> ('v, 'k) pyval) list \<Rightarrow>
             pyexpr \<Rightarrow> py_error + ('v, 'k) pyval"
  and eval_args :: "('v, 'k) pysem \<Rightarrow> (string \<times> 'k pyobj) list \<Rightarrow>
             (string \<times> ('v, 'k) pyval) list \<Rightarrow> pyexpr list \<Rightarrow> py_error + ('v, 'k) pyval list"
  where
  "eval S G L (Name n) =
     (case map_of L n of
        Some v \<Rightarrow> Inr v
      | None \<Rightarrow> (case map_of G n of Some ob \<Rightarrow> Inr (Object ob) | None \<Rightarrow> Inl (NameError n)))"
| "eval S G L (Attribute e a) =
     (case eval S G L e of
        Inl er \<Rightarrow> Inl er
      | Inr (Object (Obj_module m)) \<Rightarrow> Inr (Object (Obj_member m a))
      | Inr other \<Rightarrow> Inl (AttributeError a))"
| "eval S G L (Num k) = Inr (Scalar (num_sem S k))"
| "eval S G L (Call f args) =
     (case eval S G L f of
        Inl er \<Rightarrow> Inl er
      | Inr fv \<Rightarrow>
          (case eval_args S G L args of
             Inl er \<Rightarrow> Inl er
           | Inr vs \<Rightarrow>
               (case fv of
                  Object ob \<Rightarrow> call_sem S ob vs
                | Scalar c \<Rightarrow> Inl (TypeError ''object is not callable''))))"
| "eval S G L (BinOp l op r) =
     (case eval S G L l of
        Inl er \<Rightarrow> Inl er
      | Inr lv \<Rightarrow>
          (case eval S G L r of
             Inl er \<Rightarrow> Inl er
           | Inr rv \<Rightarrow>
               (case (lv, rv) of
                  (Scalar a, Scalar b) \<Rightarrow> Inr (Scalar (binop_sem S op a b))
                | other \<Rightarrow> Inl (TypeError ''unsupported operand type(s)''))))"
| "eval_args S G L [] = Inr []"
| "eval_args S G L (e # es) =
     (case eval S G L e of
        Inl er \<Rightarrow> Inl er
      | Inr v \<Rightarrow> (case eval_args S G L es of Inl er \<Rightarrow> Inl er | Inr vs \<Rightarrow> Inr (v # vs)))"

text \<open>
  Calling a function definition: Python refuses a parameter list with a repeated name
  and a call with the wrong number of arguments.
\<close>

fun call_function :: "('v, 'k) pysem \<Rightarrow> (string \<times> 'k pyobj) list \<Rightarrow> pystmt \<Rightarrow>
                      ('v, 'k) pyval list \<Rightarrow> py_error + ('v, 'k) pyval" where
  "call_function S G (FunctionDef f params body) args =
     (if \<not> distinct params then Inl (SyntaxError ''duplicate argument in function definition'')
      else if length args \<noteq> length params then Inl (TypeError ''wrong number of arguments'')
      else eval S G (zip params args) body)"

text \<open>The arithmetic of a semiring: \<^verbatim>\<open>+\<close> adds and \<^verbatim>\<open>*\<close> multiplies; no object is callable.\<close>

definition arith_sem :: "('v::semiring_1, 'k) pysem" where
  "arith_sem =
     \<lparr> binop_sem = (\<lambda>op a b. if op = ''+'' then a + b else if op = ''*'' then a * b else 0),
       num_sem = of_nat,
       call_sem = (\<lambda>ob vs. Inl (TypeError ''object is not callable'')) \<rparr>"


section \<open>Collaborators of the lowering\<close>

text \<open>
  A function graph, as far as lowering reads it: the inner graph of a Composite with its
  declared inputs and outputs.
\<close>

record fgraph =
  fg_inputs :: "variable list"
  fg_outputs :: "variable list"

record composite_op =
  fgraph :: fgraph

text \<open>
  The functions scalar.py imports from the rest of the package, from numpy and from
  scipy are not among the sources; they are the fields of a record.
  \<^item> \<^verbatim>\<open>getattr(np, name)\<close> raises AttributeError unless numpy has the attribute;
    \<^verbatim>\<open>getattr(scipy.special.cython_special, name, None)\<close> gives \<^verbatim>\<open>None\<close> unless the
    module has it.
  \<^item> \<^verbatim>\<open>wrap_cython_function\<close> may raise (\<^term>\<open>Inl\<close>), return \<^verbatim>\<open>None\<close> or return a
    wrapper.
  \<^item> \<^verbatim>\<open>unique_name_generator(seeds, suffix_sep)\<close> gives a generator, a state of type
    \<^typ>\<open>'g\<close>; calling it on a variable gives a name and the next state.
  \<^item> \<^verbatim>\<open>numba_funcify\<close> on a function graph is the recursive subgraph lowering;
    \<^verbatim>\<open>config.numba__fastmath\<close> is a flag.
\<close>

record ('k, 'kv, 'g) externals =
  np_has :: "string \<Rightarrow> bool"
  cython_special_has :: "string \<Rightarrow> bool"
  wrap_cython_function :: "string \<Rightarrow> dtype \<Rightarrow> dtype list \<Rightarrow> py_error + cython_wrapper option"
  generate_fallback_impl :: "scalar_op \<Rightarrow> apply_node \<Rightarrow> (string \<times> 'kv) list \<Rightarrow> 'k"
  get_name_for_object :: "'k impl \<Rightarrow> string"
  unique_name_generator :: "string list \<Rightarrow> string \<Rightarrow> 'g"
  unique_names :: "'g \<Rightarrow> variable \<Rightarrow> bool \<Rightarrow> string \<times> 'g"
  numba_funcify :: "fgraph \<Rightarrow> bool \<Rightarrow> (string \<times> 'kv) list \<Rightarrow> 'k"
  numba__fastmath :: bool

text \<open>
  \<^verbatim>\<open>[unique_names(v, force_unique=True) for v in inputs]\<close>: the generator is called on
  the inputs in order, each call continuing from the state the one before left.
\<close>

fun fresh_names :: "('g \<Rightarrow> variable \<Rightarrow> bool \<Rightarrow> string \<times> 'g) \<Rightarrow> 'g \<Rightarrow> variable list \<Rightarrow> string list" where
  "fresh_names un g [] = []"
| "fresh_names un g (v # vs) = (case un g v True of (n, g') \<Rightarrow> n # fresh_names un g' vs)"

subsection \<open>A name generator after the spec\<close>

text \<open>
  Modelled from the spec: \<^verbatim>\<open>unique_name_generator\<close> (pytensor.link.utils) is not among the
  sources. After the spec, the generator starts from a set of reserved names and a
  separator; for a candidate it returns the natural name when that is unused, else the
  name with the separator and the least integer suffix from 1 that is unused, and records
  the result as used; without "force unique" an object seen before gets the name it was
  given. It is used below to run the lowering on concrete nodes.
\<close>

record name_scope =
  used :: "string list"
  assigned :: "(variable \<times> string) list"
  separator :: string

definition first_unused :: "string list \<Rightarrow> string \<Rightarrow> string \<Rightarrow> string" where
  "first_unused taken sep nm =
     (if nm \<notin> set taken then nm
      else (case find (\<lambda>c. c \<notin> set taken)
                   (map (\<lambda>k. nm @ sep @ string_of_nat k) [1 ..< length taken + 2]) of
              Some c \<Rightarrow> c
            | None \<Rightarrow> nm))"

definition spec_unique_name_generator :: "string list \<Rightarrow> string \<Rightarrow> name_scope" where
  "spec_unique_name_generator seeds sep = \<lparr> used = seeds, assigned = [], separator = sep \<rparr>"

definition spec_unique_names :: "name_scope \<Rightarrow> variable \<Rightarrow> bool \<Rightarrow> string \<times> name_scope" where
  "spec_unique_names g v force_unique =
     (case (if force_unique then None else map_of (assigned g) v) of
        Some n \<Rightarrow> (n, g)
      | None \<Rightarrow>
          (let n = first_unused (used g) (separator g) (var_name v)
           in (n, g\<lparr> used := n # used g, assigned := (v, n) # assigned g \<rparr>)))"


section \<open>The n-ary arithmetic kernels (scalar.py, lines 170-203)\<close>

text \<open>
  \<^verbatim>\<open>binary_to_nary_func\<close> seeds the name generator with the literal string
  \<^verbatim>\<open>"binary_op_name"\<close>, names the inputs, joins the names with the operator and compiles
  the text in \<^verbatim>\<open>globals()\<close> alone.
\<close>

definition binary_to_nary_func ::
  "('k, 'kv, 'g) externals \<Rightarrow> variable list \<Rightarrow> string \<Rightarrow> string \<Rightarrow> 'k pyfunc" where
  "binary_to_nary_func E ins binary_op_name binary_op =
     (let unique = unique_name_generator E [''binary_op_name''] ''_'';
          input_names = fresh_names (unique_names E) unique ins;
          input_signature = join '', '' input_names;
          output_expr = join binary_op input_names;
          nary_src = ''\<newline>def '' @ binary_op_name @ ''('' @ input_signature @ ''):\<newline>'' @
                     ''    return '' @ output_expr @ ''\<newline>    ''
      in \<lparr> fn_src = nary_src, fn_entry = binary_op_name, fn_env = [] \<rparr>)"

definition numba_funcify_Add :: "('k, 'kv, 'g) externals \<Rightarrow> apply_node \<Rightarrow> 'k kernel" where
  "numba_funcify_Add E node =
     (let signature = create_numba_signature (inputs node) (outputs node) True;
          nary_add_fn = binary_to_nary_func E (inputs node) ''add'' ''+''
      in Njit signature (numba__fastmath E) None (Compiled nary_add_fn))"

definition numba_funcify_Mul :: "('k, 'kv, 'g) externals \<Rightarrow> apply_node \<Rightarrow> 'k kernel" where
  "numba_funcify_Mul E node =
     (let signature = create_numba_signature (inputs node) (outputs node) True;
          nary_add_fn = binary_to_nary_func E (inputs node) ''mul'' ''*''
      in Njit signature (numba__fastmath E) None (Compiled nary_add_fn))"


section \<open>The kernel source synthesizer (scalar.py, lines 36-154)\<close>

subsection \<open>Resolution through the special-function bridge (lines 60-79)\<close>

text \<open>
  The result is the implementation found so far (if any), the dispatch flag, and the
  working precisions of the arguments and of the result, which lines 76-77 assign
  together. An exception of \<^verbatim>\<open>wrap_cython_function\<close> is not caught (the handler at lines
  71 and 78-79 is commented out), and \<^verbatim>\<open>None\<close> from it fails at the attribute access of
  line 75.
\<close>

definition resolve_cython ::
  "('k, 'kv, 'g) externals \<Rightarrow> string \<Rightarrow> string \<Rightarrow> dtype \<Rightarrow> dtype list \<Rightarrow> 'k impl option \<Rightarrow>
   event list \<times> (py_error + 'k impl option \<times> bool \<times> (dtype list \<times> dtype) option)" where
  "resolve_cython E scalar_func_path scalar_func_name output_dtype input_dtypes scalar_func_numba =
     (if prefix ''scipy.special'' scalar_func_path then
        (if cython_special_has E scalar_func_name then
           (case wrap_cython_function E scalar_func_name output_dtype input_dtypes of
              Inl err \<Rightarrow>
                ([Getattr_cython_special scalar_func_name,
                  Call_wrap_cython_function scalar_func_name], Inl err)
            | Inr None \<Rightarrow>
                ([Getattr_cython_special scalar_func_name,
                  Call_wrap_cython_function scalar_func_name],
                 Inl (AttributeError ''has_pyx_skip_dispatch''))
            | Inr (Some w) \<Rightarrow>
                ([Getattr_cython_special scalar_func_name,
                  Call_wrap_cython_function scalar_func_name],
                 Inr (Some (Cython_wrapper w), has_pyx_skip_dispatch w,
                      Some (numpy_arg_dtypes w, numpy_output_dtype w))))
         else ([Getattr_cython_special scalar_func_name], Inr (scalar_func_numba, False, None)))
      else ([], Inr (scalar_func_numba, False, None)))"

subsection \<open>Source emission (lines 84-141)\<close>

text \<open>Lines 98-107: the wrapper without precision conversion.\<close>

definition plain_src :: "string \<Rightarrow> string \<Rightarrow> bool \<Rightarrow> string" where
  "plain_src scalar_op_fn_name input_names has_skip_dispatch =
     (if \<not> has_skip_dispatch then
        ''\<newline>def '' @ scalar_op_fn_name @ ''('' @ input_names @ ''):\<newline>'' @
        ''    return scalar_func_numba('' @ input_names @ '')\<newline>            ''
      else
        ''\<newline>def '' @ scalar_op_fn_name @ ''('' @ input_names @ ''):\<newline>'' @
        ''    return scalar_func_numba('' @ input_names @ '', np.intc(1))\<newline>            '')"

text \<open>Lines 112-115: \<^verbatim>\<open>{f"inp_tmp_dtype_{i}": i_dtype for i, i_dtype in enumerate(...)}\<close>.\<close>

definition input_tmp_dtype_names :: "dtype list \<Rightarrow> (string \<times> dtype) list" where
  "input_tmp_dtype_names input_inner_dtypes =
     map (\<lambda>(i, i_dtype). (''inp_tmp_dtype_'' @ string_of_nat i, i_dtype))
         (enumerate 0 input_inner_dtypes)"

text \<open>Lines 124-141: the wrapper with precision conversion; \<^verbatim>\<open>zip\<close> stops at the shorter list.\<close>

definition converted_call_args :: "string list \<Rightarrow> string list \<Rightarrow> string" where
  "converted_call_args input_names tmp_names =
     join '', '' (map (\<lambda>(i_name, i_tmp_dtype_name).
                        ''direct_cast('' @ i_name @ '', '' @ i_tmp_dtype_name @ '')'')
                     (zip input_names tmp_names))"

definition converting_src :: "string \<Rightarrow> string list \<Rightarrow> string list \<Rightarrow> bool \<Rightarrow> string" where
  "converting_src scalar_op_fn_name input_names tmp_names has_skip_dispatch =
     (if \<not> has_skip_dispatch then
        ''\<newline>def '' @ scalar_op_fn_name @ ''('' @ join '', '' input_names @ ''):\<newline>'' @
        ''    return direct_cast(scalar_func_numba('' @ converted_call_args input_names tmp_names @
        ''), output_dtype)\<newline>            ''
      else
        ''\<newline>def '' @ scalar_op_fn_name @ ''('' @ join '', '' input_names @ ''):\<newline>'' @
        ''    return direct_cast(scalar_func_numba('' @ converted_call_args input_names tmp_names @
        '', np.intc(1)), output_dtype)\<newline>            '')"

text \<open>
  Lines 84-154. The generator of lines 85-87 is made and then replaced by the one of
  the branch taken. The result is \<^verbatim>\<open>numba_njit(signature, fastmath=..., cache=False)\<close>
  applied to the compiled function.
\<close>

definition synthesize ::
  "('k, 'kv, 'g) externals \<Rightarrow> apply_node \<Rightarrow> 'k impl \<Rightarrow> bool \<Rightarrow> (dtype list \<times> dtype) option \<Rightarrow>
   event list \<times> 'k kernel" where
  "synthesize E node scalar_func_numba has_skip_dispatch inner =
     (let scalar_op_fn_name = get_name_for_object E scalar_func_numba;
          seeds0 = [scalar_op_fn_name, ''scalar_func_numba''];
          global_env0 = [(''scalar_func_numba'', Obj_impl scalar_func_numba)];
          (seeds, global_env, scalar_op_src) =
            (case inner of
               None \<Rightarrow>
                 (let unique = unique_name_generator E seeds0 ''_'';
                      input_names = join '', '' (fresh_names (unique_names E) unique (inputs node))
                  in (seeds0, global_env0,
                      plain_src scalar_op_fn_name input_names has_skip_dispatch))
             | Some (input_inner_dtypes, output_inner_dtype) \<Rightarrow>
                 (let tmp = input_tmp_dtype_names input_inner_dtypes;
                      global_env1 = global_env0 @
                        [(''direct_cast'', Obj_direct_cast),
                         (''output_dtype'', Obj_dtype output_inner_dtype)] @
                        map (\<lambda>(nm, d). (nm, Obj_dtype d)) tmp;
                      seeds1 = seeds0 @ map fst global_env1;
                      unique = unique_name_generator E seeds1 ''_'';
                      input_names = fresh_names (unique_names E) unique (inputs node)
                  in (seeds1, global_env1,
                      converting_src scalar_op_fn_name input_names (map fst tmp)
                        has_skip_dispatch)));
          scalar_op_fn = \<lparr> fn_src = scalar_op_src, fn_entry = scalar_op_fn_name,
                           fn_env = global_env \<rparr>;
          signature = create_numba_signature (inputs node) (outputs node) True
      in ([Call_get_name_for_object, Call_unique_name_generator seeds0,
           Call_unique_name_generator seeds] @
          map Call_unique_names (inputs node) @
          [Call_compile_function_src scalar_op_src scalar_op_fn_name,
           Call_create_numba_signature, Call_numba_njit],
          Njit signature (numba__fastmath E) (Some False) (Compiled scalar_op_fn)))"

subsection \<open>\<^verbatim>\<open>numba_funcify_ScalarOp\<close>\<close>

definition numba_funcify_ScalarOp ::
  "('k, 'kv, 'g) externals \<Rightarrow> scalar_op \<Rightarrow> apply_node \<Rightarrow> (string \<times> 'kv) list \<Rightarrow>
   event list \<times> (py_error + 'k kernel)" where
  "numba_funcify_ScalarOp E op node kwargs =
     (case nfunc_spec op of
        None \<Rightarrow>
          ([Call_generate_fallback_impl], Inr (Plain (generate_fallback_impl E op node kwargs)))
      | Some spec \<Rightarrow>
          (let scalar_func_path = fst spec;
               parts = split_on CHR ''.'' scalar_func_path;
               module_path = butlast parts;
               scalar_func_name = last parts
           in if module_path = [] \<and> \<not> np_has E scalar_func_name
              then ([Getattr_np scalar_func_name], Inl (AttributeError scalar_func_name))
              else
                (let (tr1, numba1) =
                       (if module_path = []
                        then ([Getattr_np scalar_func_name], Some (Np_attr scalar_func_name))
                        else ([], None));
                     input_dtypes = map var_dtype (inputs node);
                     output_dtypes = map var_dtype (outputs node)
                 in if length output_dtypes \<noteq> 1
                    then (tr1, Inl (ValueError
                            ''ScalarOps with more than one output are not supported''))
                    else
                      (case resolve_cython E scalar_func_path scalar_func_name
                              (hd output_dtypes) input_dtypes numba1 of
                         (tr2, Inl err) \<Rightarrow> (tr1 @ tr2, Inl err)
                       | (tr2, Inr (numba2, has_skip_dispatch, inner)) \<Rightarrow>
                           (let (tr3, scalar_func_numba) =
                                  (case numba2 of
                                     None \<Rightarrow>
                                       ([Call_generate_fallback_impl],
                                        Fallback_impl (generate_fallback_impl E op node kwargs))
                                   | Some f \<Rightarrow> ([], f));
                                (tr4, k) = synthesize E node scalar_func_numba
                                             has_skip_dispatch inner
                            in (tr1 @ tr2 @ tr3 @ tr4, Inr k))))))"


section \<open>The composite fusion lowerer (scalar.py, lines 248-257)\<close>

text \<open>
  \<^verbatim>\<open>kwargs.pop("storage_map", None)\<close> removes the key; passing
  \<^verbatim>\<open>squeeze_output=True\<close> together with \<^verbatim>\<open>**kwargs\<close> is a TypeError in Python when
  \<^verbatim>\<open>kwargs\<close> has that key too.
\<close>

definition numba_funcify_Composite ::
  "('k, 'kv, 'g) externals \<Rightarrow> composite_op \<Rightarrow> apply_node \<Rightarrow> (string \<times> 'kv) list \<Rightarrow>
   event list \<times> (py_error + 'k kernel)" where
  "numba_funcify_Composite E op node kwargs =
     (let signature = create_numba_signature (fg_inputs (fgraph op)) (fg_outputs (fgraph op)) True;
          kwargs' = filter (\<lambda>(key, v). key \<noteq> ''storage_map'') kwargs
      in if ''squeeze_output'' \<in> set (map fst kwargs')
         then ([Call_create_numba_signature],
               Inl (TypeError ''got multiple values for keyword argument squeeze_output''))
         else ([Call_create_numba_signature, Call_numba_funcify True (map fst kwargs'),
                Call_numba_njit],
               Inr (Njit signature (numba__fastmath E) None
                      (External (numba_funcify E (fgraph op) True kwargs')))))"


section \<open>What the emitted sources are\<close>

text \<open>
  The syntax trees the emitted texts are compared with. An n-ary kernel returns the
  chain of its parameters under the operator, nested to the left.
\<close>

definition nary_expr :: "string list \<Rightarrow> string \<Rightarrow> pyexpr" where
  "nary_expr names op = foldl (\<lambda>l n. BinOp l op (Name n)) (Name (hd names)) (tl names)"

fun left_chain :: "string \<Rightarrow> pyexpr \<Rightarrow> bool" where
  "left_chain op (BinOp l op' r) = (op' = op)"
| "left_chain op (Name n) = True"
| "left_chain op e = False"

definition nary_def :: "string \<Rightarrow> string list \<Rightarrow> string \<Rightarrow> pystmt" where
  "nary_def f names op = FunctionDef f names (nary_expr names op)"

text \<open>
  A synthesized wrapper calls \<^verbatim>\<open>scalar_func_numba\<close> on the forwarded arguments, followed
  by \<^verbatim>\<open>np.intc(1)\<close> when the dispatch flag is set; with precision conversion every
  forwarded argument and the result of the call go through \<^verbatim>\<open>direct_cast\<close>.
\<close>

definition standard_selection :: pyexpr where
  "standard_selection = Call (Attribute (Name ''np'') ''intc'') [Num 1]"

definition impl_call :: "pyexpr list \<Rightarrow> bool \<Rightarrow> pyexpr" where
  "impl_call args flag =
     Call (Name ''scalar_func_numba'') (args @ (if flag then [standard_selection] else []))"

definition cast_arg :: "string \<Rightarrow> string \<Rightarrow> pyexpr" where
  "cast_arg param tmp_dtype_name = Call (Name ''direct_cast'') [Name param, Name tmp_dtype_name]"

text \<open>The name the synthesizer binds the working precision of the \<open>i\<close>-th argument to.\<close>

definition tmp_dtype_name :: "nat \<Rightarrow> string" where
  "tmp_dtype_name i = ''inp_tmp_dtype_'' @ string_of_nat i"

definition plain_wrapper :: "string \<Rightarrow> string list \<Rightarrow> bool \<Rightarrow> pystmt" where
  "plain_wrapper f params flag = FunctionDef f params (impl_call (map Name params) flag)"

definition converting_wrapper :: "string \<Rightarrow> string list \<Rightarrow> string list \<Rightarrow> bool \<Rightarrow> pystmt" where
  "converting_wrapper f params tmp_names flag =
     FunctionDef f params
       (Call (Name ''direct_cast'')
          [impl_call (map2 cast_arg params tmp_names) flag, Name ''output_dtype''])"

text \<open>
  The environment of a wrapper with precision conversion, in the order lines 89 and
  110-116 make the bindings.
\<close>

definition converting_env :: "'k impl \<Rightarrow> dtype list \<Rightarrow> dtype \<Rightarrow> (string \<times> 'k pyobj) list" where
  "converting_env impl ds od =
     [(''scalar_func_numba'', Obj_impl impl), (''direct_cast'', Obj_direct_cast),
      (''output_dtype'', Obj_dtype od)] @
     map (\<lambda>(nm, d). (nm, Obj_dtype d)) (input_tmp_dtype_names ds)"

text \<open>
  An implementation requires the dispatch-control argument when it is a wrapped Cython
  function that says so; the wrapper converts precisions when the implementation is a
  wrapped Cython function.
\<close>

fun requires_dispatch :: "'k impl \<Rightarrow> bool" where
  "requires_dispatch (Cython_wrapper w) = has_pyx_skip_dispatch w"
| "requires_dispatch other = False"

fun converts :: "'k impl \<Rightarrow> bool" where
  "converts (Cython_wrapper w) = True"
| "converts other = False"

definition multi_output_error :: py_error where
  "multi_output_error = ValueError ''ScalarOps with more than one output are not supported''"

fun def_body :: "pystmt \<Rightarrow> pyexpr" where
  "def_body (FunctionDef f params body) = body"

fun kernel_src :: "'k kernel \<Rightarrow> string" where
  "kernel_src (Njit sg fm c (Compiled fn)) = fn_src fn"
| "kernel_src other = []"

fun kernel_env :: "'k kernel \<Rightarrow> (string \<times> 'k pyobj) list" where
  "kernel_env (Njit sg fm c (Compiled fn)) = fn_env fn"
| "kernel_env other = []"

text \<open>A kernel calls through a foreign function pointer when its environment binds a
  wrapped Cython function.\<close>

fun foreign_binding :: "string \<times> 'k pyobj \<Rightarrow> bool" where
  "foreign_binding (nm, Obj_impl (Cython_wrapper w)) = True"
| "foreign_binding other = False"

definition calls_foreign :: "'k kernel \<Rightarrow> bool" where
  "calls_foreign k = list_ex foreign_binding (kernel_env k)"

subsection \<open>An environment to run the lowering in\<close>

text \<open>
  A small instance of the collaborators: numpy and the Cython module each have a few
  names, the bridge computes every routine in float64 and has no signature for complex
  arguments, the fallback kernel of an operator is known by the operator's name, and the
  name generator is the one after the spec.
\<close>

definition demo_externals :: "(string, nat, name_scope) externals" where
  "demo_externals =
     \<lparr> np_has = (\<lambda>n. n \<in> set [''add'', ''exp'', ''maximum'', ''modf'', ''sqrt'']),
       cython_special_has = (\<lambda>n. n \<in> set [''erf'', ''gammaln'', ''betainc'', ''sici'']),
       wrap_cython_function = (\<lambda>nm out ins.
          if ''complex128'' \<in> set ins then Inl NotImplementedError
          else Inr (Some \<lparr> cython_name = nm, has_pyx_skip_dispatch = (nm = ''erf''),
                            numpy_arg_dtypes = map (\<lambda>d. ''float64'') ins,
                            numpy_output_dtype = ''float64'' \<rparr>)),
       generate_fallback_impl = (\<lambda>op node kw. op_name op),
       get_name_for_object = (\<lambda>i. case i of Np_attr n \<Rightarrow> n
                                   | Cython_wrapper w \<Rightarrow> cython_name w
                                   | Fallback_impl k \<Rightarrow> k),
       unique_name_generator = spec_unique_name_generator,
       unique_names = spec_unique_names,
       numba_funcify = (\<lambda>fg squeeze kw. ''composite''),
       numba__fastmath = True \<rparr>"

definition var :: "string \<Rightarrow> dtype \<Rightarrow> variable" where
  "var nm d = \<lparr> var_name = nm, var_dtype = d \<rparr>"

definition three_ints :: apply_node where
  "three_ints = \<lparr> inputs = [var ''x'' ''int64'', var ''x'' ''int64'', var ''y'' ''int64''],
                   outputs = [var ''z'' ''int64''] \<rparr>"


subsection \<open>Operators, nodes and the kernels expected for them\<close>

definition erf_op :: scalar_op where
  "erf_op = \<lparr> op_name = ''Erf'', nfunc_spec = Some (''scipy.special.erf'', 1, 1) \<rparr>"

definition gammaln_op :: scalar_op where
  "gammaln_op = \<lparr> op_name = ''GammaLn'', nfunc_spec = Some (''scipy.special.gammaln'', 1, 1) \<rparr>"

definition exp_op :: scalar_op where
  "exp_op = \<lparr> op_name = ''Exp'', nfunc_spec = Some (''exp'', 1, 1) \<rparr>"

definition modf_op :: scalar_op where
  "modf_op = \<lparr> op_name = ''Modf'', nfunc_spec = Some (''modf'', 1, 2) \<rparr>"

definition sici_op :: scalar_op where
  "sici_op = \<lparr> op_name = ''Sici'', nfunc_spec = Some (''scipy.special.sici'', 1, 2) \<rparr>"

definition nosuch_op :: scalar_op where
  "nosuch_op = \<lparr> op_name = ''NoSuch'', nfunc_spec = Some (''nosuch'', 1, 2) \<rparr>"

definition float32_node :: apply_node where
  "float32_node = \<lparr> inputs = [var ''x'' ''float32''], outputs = [var ''z'' ''float32''] \<rparr>"

definition complex_node :: apply_node where
  "complex_node = \<lparr> inputs = [var ''x'' ''complex128''], outputs = [var ''z'' ''complex128''] \<rparr>"

definition two_output_node :: apply_node where
  "two_output_node = \<lparr> inputs = [var ''x'' ''float64''],
                        outputs = [var ''a'' ''float64'', var ''b'' ''float64''] \<rparr>"

definition erf_wrapper :: cython_wrapper where
  "erf_wrapper = \<lparr> cython_name = ''erf'', has_pyx_skip_dispatch = True,
                   numpy_arg_dtypes = [''float64''], numpy_output_dtype = ''float64'' \<rparr>"

definition erf_kernel :: "string kernel" where
  "erf_kernel =
     Njit \<lparr> sig_inputs = [''float32''], sig_outputs = [''float32''], sig_force_scalar = True \<rparr>
       True (Some False)
       (Compiled
          \<lparr> fn_src = ''\<newline>def erf(x):\<newline>'' @
               ''    return direct_cast(scalar_func_numba(direct_cast(x, inp_tmp_dtype_0), '' @
               ''np.intc(1)), output_dtype)\<newline>            '',
            fn_entry = ''erf'',
            fn_env = [(''scalar_func_numba'', Obj_impl (Cython_wrapper erf_wrapper)),
                      (''direct_cast'', Obj_direct_cast),
                      (''output_dtype'', Obj_dtype ''float64''),
                      (''inp_tmp_dtype_0'', Obj_dtype ''float64'')] \<rparr>)"

definition exp_kernel :: "string kernel" where
  "exp_kernel =
     Njit \<lparr> sig_inputs = [''float32''], sig_outputs = [''float32''], sig_force_scalar = True \<rparr>
       True (Some False)
       (Compiled
          \<lparr> fn_src = ''\<newline>def exp(x):\<newline>    return scalar_func_numba(x)\<newline>            '',
            fn_entry = ''exp'',
            fn_env = [(''scalar_func_numba'', Obj_impl (Np_attr ''exp''))] \<rparr>)"


definition add_mul_composite :: composite_op where
  "add_mul_composite =
     \<lparr> fgraph = \<lparr> fg_inputs = [var ''a'' ''float64'', var ''b'' ''float64''],
                   fg_outputs = [var ''o'' ''float64''] \<rparr> \<rparr>"

definition composite_node :: apply_node where
  "composite_node = \<lparr> inputs = [var ''x'' ''float64'', var ''y'' ''float64''],
                       outputs = [var ''z'' ''float64''] \<rparr>"

definition outer_kwargs :: "(string \<times> nat) list" where
  "outer_kwargs = [(''storage_map'', 7), (''fgraph_name'', 1)]"


section \<open>Properties of the hand-written kernels\<close>

text \<open>
  Claim C10. For every second argument \<open>y\<close>, \<^verbatim>\<open>XlogY0.st_impl\<close> applied to a first
  argument that compares equal to \<^verbatim>\<open>0.0\<close> returns the literal \<^verbatim>\<open>0.0\<close> and never calls
  \<^verbatim>\<open>np.log\<close>: the result does not depend on \<open>y\<close>, also where the logarithm of \<open>y\<close> is
  undefined.
\<close>

theorem XlogY0_st_impl_zero:
  "py_eq M x (lit_0_0 M) \<Longrightarrow> XlogY0_st_impl M x y = (lit_0_0 M, [])"
  by (simp add: XlogY0_st_impl_def)

theorem XlogY0_st_impl_zero_witness:
  "py_eq real_npmath 0 (lit_0_0 real_npmath) \<and>
   XlogY0_st_impl real_npmath 0 (- 1) = (0, []) \<and>
   XlogY0_st_impl real_npmath 0 0 = (0, [])"
  using XlogY0_st_impl_zero [of real_npmath 0 "- 1"]
        XlogY0_st_impl_zero [of real_npmath 0 0]
  by (simp add: real_npmath_def)

text \<open>
  Claim C7. \<^verbatim>\<open>logp1mexp\<close> returns \<^verbatim>\<open>log1p(-exp(x))\<close> for every \<open>x\<close> strictly below
  \<^verbatim>\<open>log(0.5)\<close> and \<^verbatim>\<open>log(-expm1(x))\<close> for every \<open>x\<close> at or above it (strictly above, or
  the same value); at \<^verbatim>\<open>log(0.5)\<close> itself it returns \<^verbatim>\<open>log(-expm1(x))\<close>. Of the
  comparison only what IEEE comparison satisfies is assumed: it is irreflexive and
  asymmetric.
\<close>

theorem logp1mexp_branches:
  assumes irrefl: "\<And>a. \<not> py_lt M a a"
    and asym: "\<And>a b. py_lt M a b \<Longrightarrow> \<not> py_lt M b a"
  shows "(py_lt M x (np_log M (lit_0_5 M)) \<longrightarrow>
            logp1mexp M x = np_log1p M (py_neg M (np_exp M x))) \<and>
         (py_lt M (np_log M (lit_0_5 M)) x \<or> x = np_log M (lit_0_5 M) \<longrightarrow>
            logp1mexp M x = np_log M (py_neg M (np_expm1 M x))) \<and>
         logp1mexp M (np_log M (lit_0_5 M)) =
            np_log M (py_neg M (np_expm1 M (np_log M (lit_0_5 M))))"
proof (intro conjI impI)
  assume "py_lt M x (np_log M (lit_0_5 M))"
  then show "logp1mexp M x = np_log1p M (py_neg M (np_exp M x))"
    by (simp add: logp1mexp_def)
next
  assume "py_lt M (np_log M (lit_0_5 M)) x \<or> x = np_log M (lit_0_5 M)"
  then have "\<not> py_lt M x (np_log M (lit_0_5 M))"
    using irrefl asym by blast
  then show "logp1mexp M x = np_log M (py_neg M (np_expm1 M x))"
    by (simp add: logp1mexp_def)
next
  show "logp1mexp M (np_log M (lit_0_5 M)) =
          np_log M (py_neg M (np_expm1 M (np_log M (lit_0_5 M))))"
    using irrefl by (simp add: logp1mexp_def)
qed

theorem logp1mexp_branches_witness:
  "(\<forall>a. \<not> py_lt real_npmath a a) \<and>
   (\<forall>a b. \<not> (py_lt real_npmath a b \<and> py_lt real_npmath b a)) \<and>
   py_lt real_npmath (ln (1 / 4)) (np_log real_npmath (lit_0_5 real_npmath)) \<and>
   logp1mexp real_npmath (ln (1 / 4)) = ln (3 / 4) \<and>
   py_lt real_npmath (np_log real_npmath (lit_0_5 real_npmath)) (ln (3 / 4)) \<and>
   logp1mexp real_npmath (ln (3 / 4)) = ln (1 / 4) \<and>
   logp1mexp real_npmath (ln (1 / 2)) = ln (1 / 2)"
  using logp1mexp_branches [of real_npmath "ln (1 / 4)"]
        logp1mexp_branches [of real_npmath "ln (3 / 4)"]
  by (simp add: real_npmath_def)

lemma clip_cases:
  "clip to_scalar x m M =
     (if to_scalar x < to_scalar m then to_scalar m
      else if to_scalar M < to_scalar x then to_scalar M
      else to_scalar x)"
  by (simp add: clip_def Let_def)

text \<open>
  Claim C9, as stated, fails where the bounds are inverted: for \<open>x = 2\<close>, \<open>m = 3\<close>,
  \<open>M = 0\<close> the value is above the upper bound, but the first test (\<open>x < m\<close>, line 235)
  already holds and \<^verbatim>\<open>clip\<close> returns the lower bound 3, not the upper bound 0.
\<close>

theorem clip_inverted_bounds_counterexample:
  "(0::int) < 2 \<and> clip id (2::int) 3 0 = 3 \<and> clip id (2::int) 3 0 \<noteq> 0"
  by (simp add: clip_def)

text \<open>
  Claim C9, amended. \<^verbatim>\<open>clip\<close> coerces its three operands with \<^verbatim>\<open>to_scalar\<close> and compares
  and returns the coerced scalars only. With \<open>x\<close>, \<open>m\<close>, \<open>M\<close> the coerced value and bounds,
  it returns \<open>m\<close> when \<open>x < m\<close>; \<open>M\<close> when \<open>x > M\<close> and not \<open>x < m\<close>, so in particular
  when \<open>x > M\<close> and the bounds are in order (\<open>m \<le> M\<close>); and \<open>x\<close> otherwise. On the integers
  \<^verbatim>\<open>clip(5, 0, 3) == 3\<close>, \<^verbatim>\<open>clip(-1, 0, 3) == 0\<close> and \<^verbatim>\<open>clip(2, 0, 3) == 2\<close>.
\<close>

theorem clip_clamps:
  fixes to_scalar :: "'a \<Rightarrow> 's::preorder"
  shows "(to_scalar x < to_scalar m \<longrightarrow> clip to_scalar x m M = to_scalar m) \<and>
         (\<not> to_scalar x < to_scalar m \<and> to_scalar M < to_scalar x \<longrightarrow>
            clip to_scalar x m M = to_scalar M) \<and>
         (to_scalar m \<le> to_scalar M \<and> to_scalar M < to_scalar x \<longrightarrow>
            clip to_scalar x m M = to_scalar M) \<and>
         (\<not> to_scalar x < to_scalar m \<and> \<not> to_scalar M < to_scalar x \<longrightarrow>
            clip to_scalar x m M = to_scalar x)"
proof -
  have "\<not> to_scalar x < to_scalar m"
    if "to_scalar m \<le> to_scalar M" and "to_scalar M < to_scalar x"
    using that by (meson le_less_trans less_asym)
  then show ?thesis
    by (auto simp: clip_cases)
qed

theorem clip_clamps_witness:
  "(3::int) < 5 \<and> (0::int) \<le> 3 \<and> clip (\<lambda>v. v) (5::int) 0 3 = 3 \<and>
   (- 1::int) < 0 \<and> clip (\<lambda>v. v) (- 1::int) 0 3 = 0 \<and>
   \<not> (2::int) < 0 \<and> \<not> (3::int) < 2 \<and> clip (\<lambda>v. v) (2::int) 0 3 = 2"
  using clip_clamps [of "\<lambda>v. v" "5::int" 0 3] clip_clamps [of "\<lambda>v. v" "- 1::int" 0 3]
        clip_clamps [of "\<lambda>v. v" "2::int" 0 3]
  by simp


section \<open>Properties of the n-ary arithmetic kernels\<close>

lemma render_chain:
  "left_chain op e \<Longrightarrow>
   render (foldl (\<lambda>l n. BinOp l op (Name n)) e ns) = render e @ concat (map (\<lambda>n. op @ n) ns)"
proof (induction ns arbitrary: e)
  case Nil
  then show ?case by simp
next
  case (Cons n ns)
  have "left_chain op (BinOp e op (Name n))" by simp
  from Cons.IH [OF this] Cons.prems show ?case
    by (cases e) simp_all
qed

lemma join_concat: "join sep (x # xs) = x @ concat (map (\<lambda>n. sep @ n) xs)"
  by (induction xs arbitrary: x) simp_all

lemma render_nary_expr: "names \<noteq> [] \<Longrightarrow> render (nary_expr names op) = join op names"
  by (cases names) (simp_all add: nary_expr_def render_chain join_concat)

lemma eval_chain:
  assumes "length ns = length ws"
    and "eval S G L e = Inr (Scalar a)"
    and "\<And>i. i < length ns \<Longrightarrow> map_of L (ns ! i) = Some (Scalar (ws ! i))"
  shows "eval S G L (foldl (\<lambda>l n. BinOp l op (Name n)) e ns) =
           Inr (Scalar (foldl (binop_sem S op) a ws))"
  using assms
proof (induction ns ws arbitrary: e a rule: list_induct2)
  case Nil
  then show ?case by simp
next
  case (Cons n ns w ws)
  have n: "map_of L n = Some (Scalar w)" using Cons.prems(2) [of 0] by simp
  have step: "eval S G L (BinOp e op (Name n)) = Inr (Scalar (binop_sem S op a w))"
    using Cons.prems(1) n by simp
  have rest: "\<And>i. i < length ns \<Longrightarrow> map_of L (ns ! i) = Some (Scalar (ws ! i))"
    using Cons.prems(2) [of "Suc _"] by simp
  show ?case using Cons.IH [OF step rest] by simp
qed

lemma call_nary_def:
  fixes S :: "('v, 'k) pysem"
  assumes ne: "names \<noteq> []" and d: "distinct names" and len: "length vs = length names"
  shows "call_function S G (nary_def f names op) (map Scalar vs) =
           Inr (Scalar (foldl (binop_sem S op) (hd vs) (tl vs)))"
proof -
  let ?L = "zip names (map Scalar vs) :: (string \<times> ('v, 'k) pyval) list"
  have look: "\<And>i. i < length names \<Longrightarrow> map_of ?L (names ! i) = Some (Scalar (vs ! i))"
    using d len by (simp add: map_of_zip_nth)
  obtain n ns where names: "names = n # ns" using ne by (cases names) auto
  obtain w ws where vs: "vs = w # ws" using len names by (cases vs) auto
  have "map_of ?L (names ! 0) = Some (Scalar (vs ! 0))"
    using look [of 0] ne by simp
  then have "map_of ?L n = Some (Scalar w)"
    unfolding names vs nth_Cons_0 .
  then have hd: "eval S G ?L (Name n) = Inr (Scalar w)"
    by (simp only: eval.simps option.case)
  have tl: "map_of ?L (ns ! i) = Some (Scalar (ws ! i))" if "i < length ns" for i
  proof -
    have "map_of ?L (names ! Suc i) = Some (Scalar (vs ! Suc i))"
      using look [of "Suc i"] that names by simp
    then show ?thesis
      unfolding names vs nth_Cons_Suc .
  qed
  have "length ns = length ws" using len names vs by simp
  from eval_chain [OF this hd tl]
  have "eval S G ?L (nary_expr names op) = Inr (Scalar (foldl (binop_sem S op) w ws))"
    by (simp add: nary_expr_def names)
  then show ?thesis using d len by (simp add: nary_def_def vs)
qed

lemma foldl_add_sum_list: "foldl (+) (a::'a::monoid_add) xs = a + sum_list xs"
  by (induction xs arbitrary: a) (simp_all add: add.assoc)

lemma foldl_mult_prod_list: "foldl (*) (a::'a::monoid_mult) xs = a * prod_list xs"
  by (induction xs arbitrary: a) (simp_all add: mult.assoc)

lemma binary_to_nary_func_src:
  assumes "ins \<noteq> []"
  shows "fn_src (binary_to_nary_func E ins f op) =
     ''\<newline>'' @ render_def (nary_def f
        (fresh_names (unique_names E) (unique_name_generator E [''binary_op_name''] ''_'') ins) op)
      @ ''\<newline>    ''"
proof -
  have "fresh_names (unique_names E) (unique_name_generator E [''binary_op_name''] ''_'') ins \<noteq> []"
    using assms by (cases ins) (auto split: prod.splits)
  then show ?thesis 
    by (simp add: binary_to_nary_func_def nary_def_def render_nary_expr Let_def)
qed

lemma length_fresh_names: "length (fresh_names un g vs) = length vs"
  by (induction vs arbitrary: g) (auto split: prod.splits)

text \<open>
  Claim C8. For a node with one or more inputs, whose generated parameter names are
  pairwise distinct, the source text of the Add (Mul) kernel is the definition of a
  function that returns its parameters chained with \<^verbatim>\<open>+\<close> (\<^verbatim>\<open>*\<close>) and nested to
  the left; called on as many scalars as the node has inputs it returns their left fold
  under the operator, which in a semiring is their sum (product). Add on (2, 3, 4) returns
  9 and Mul on (2, 3, 4) returns 24.
\<close>

theorem nary_kernels_fold:
  fixes E :: "('k, 'kv, 'g) externals" and vs :: "'v::semiring_1 list"
    and S :: "('v, 'k) pysem"
  assumes ne: "inputs node \<noteq> []"
    and names: "names = fresh_names (unique_names E)
                  (unique_name_generator E [''binary_op_name''] ''_'') (inputs node)"
    and d: "distinct names"
    and len: "length vs = length (inputs node)"
  shows "kernel_src (numba_funcify_Add E node) =
           ''\<newline>'' @ render_def (nary_def ''add'' names ''+'') @ ''\<newline>    '' \<and>
         kernel_src (numba_funcify_Mul E node) =
           ''\<newline>'' @ render_def (nary_def ''mul'' names ''*'') @ ''\<newline>    '' \<and>
         call_function S G (nary_def ''add'' names ''+'') (map Scalar vs) =
           Inr (Scalar (foldl (binop_sem S ''+'') (hd vs) (tl vs))) \<and>
         call_function S G (nary_def ''mul'' names ''*'') (map Scalar vs) =
           Inr (Scalar (foldl (binop_sem S ''*'') (hd vs) (tl vs))) \<and>
         call_function arith_sem G (nary_def ''add'' names ''+'') (map Scalar vs) =
           Inr (Scalar (sum_list vs)) \<and>
         call_function arith_sem G (nary_def ''mul'' names ''*'') (map Scalar vs) =
           Inr (Scalar (prod_list vs))"
proof -
  have l: "length vs = length names"
    unfolding names using len by (simp add: length_fresh_names)
  have n0: "names \<noteq> []"
    using l len ne by auto
  have v: "vs = hd vs # tl vs"
    using len ne by (cases vs) auto
  have src_add: "kernel_src (numba_funcify_Add E node) =
           ''\<newline>'' @ render_def (nary_def ''add'' names ''+'') @ ''\<newline>    ''"
    using binary_to_nary_func_src [OF ne, of E "''add''" "''+''"]
    by (simp add: numba_funcify_Add_def names)
  have src_mul: "kernel_src (numba_funcify_Mul E node) =
           ''\<newline>'' @ render_def (nary_def ''mul'' names ''*'') @ ''\<newline>    ''"
    using binary_to_nary_func_src [OF ne, of E "''mul''" "''*''"]
    by (simp add: numba_funcify_Mul_def names)
  have sum: "foldl (binop_sem (arith_sem :: ('v, 'k) pysem) ''+'') (hd vs) (tl vs) = sum_list vs"
  proof -
    have "binop_sem (arith_sem :: ('v, 'k) pysem) ''+'' = (+)"
      by (simp add: arith_sem_def fun_eq_iff)
    then have "foldl (binop_sem (arith_sem :: ('v, 'k) pysem) ''+'') (hd vs) (tl vs) =
                 hd vs + sum_list (tl vs)"
      by (simp add: foldl_add_sum_list)
    also have "\<dots> = sum_list (hd vs # tl vs)" by simp
    finally show ?thesis using v by simp
  qed
  have prod: "foldl (binop_sem (arith_sem :: ('v, 'k) pysem) ''*'') (hd vs) (tl vs) = prod_list vs"
  proof -
    have "binop_sem (arith_sem :: ('v, 'k) pysem) ''*'' = (*)"
      by (simp add: arith_sem_def fun_eq_iff)
    then have "foldl (binop_sem (arith_sem :: ('v, 'k) pysem) ''*'') (hd vs) (tl vs) =
                 hd vs * prod_list (tl vs)"
      by (simp add: foldl_mult_prod_list)
    also have "\<dots> = prod_list (hd vs # tl vs)" by simp
    finally show ?thesis using v by simp
  qed
  show ?thesis
    using src_add src_mul sum prod
      call_nary_def [OF n0 d l, of S G "''add''" "''+''"]
      call_nary_def [OF n0 d l, of S G "''mul''" "''*''"]
      call_nary_def [OF n0 d l, of arith_sem G "''add''" "''+''"]
      call_nary_def [OF n0 d l, of arith_sem G "''mul''" "''*''"]
    by simp
qed

theorem nary_kernels_fold_witness:
  "inputs three_ints \<noteq> [] \<and>
   distinct [''x'', ''x_1'', ''y''] \<and>
   kernel_src (numba_funcify_Add demo_externals three_ints) =
     ''\<newline>def add(x, x_1, y):\<newline>    return x+x_1+y\<newline>    '' \<and>
   kernel_src (numba_funcify_Mul demo_externals three_ints) =
     ''\<newline>def mul(x, x_1, y):\<newline>    return x*x_1*y\<newline>    '' \<and>
   call_function (arith_sem :: (int, string) pysem) [] (nary_def ''add'' [''x'', ''x_1'', ''y''] ''+'')
     [Scalar 2, Scalar 3, Scalar 4] = Inr (Scalar 9) \<and>
   call_function (arith_sem :: (int, string) pysem) [] (nary_def ''mul'' [''x'', ''x_1'', ''y''] ''*'')
     [Scalar 2, Scalar 3, Scalar 4] = Inr (Scalar 24)"
proof -
  have ne: "inputs three_ints \<noteq> []"
    by (simp add: three_ints_def)
  have names: "[''x'', ''x_1'', ''y''] = fresh_names (unique_names demo_externals)
         (unique_name_generator demo_externals [''binary_op_name''] ''_'') (inputs three_ints)"
    by code_simp
  have d: "distinct [''x'', ''x_1'', ''y'']"
    by simp
  have len: "length [2, 3, 4::int] = length (inputs three_ints)"
    by (simp add: three_ints_def)
  show ?thesis
    using nary_kernels_fold [OF ne names d len, of arith_sem "[]"] ne
    by (simp add: nary_def_def nary_expr_def arith_sem_def)
qed


section \<open>Properties of the kernel source synthesizer\<close>

lemma split_on_nonempty: "split_on c s \<noteq> []"
  by (induction s) (auto split: list.splits)

lemma split_on_no_sep: "c \<notin> set s \<Longrightarrow> split_on c s = [s]"
  by (induction s) auto

lemma split_on_sep: "c \<in> set s \<Longrightarrow> butlast (split_on c s) \<noteq> []"
proof (induction s)
  case Nil
  then show ?case by simp
next
  case (Cons x xs)
  show ?case
  proof (cases "x = c")
    case True
    then show ?thesis by (simp add: split_on_nonempty)
  next
    case False
    with Cons.prems have "c \<in> set xs" by simp
    from Cons.IH [OF this] False show ?thesis
      by (cases "split_on c xs") auto
  qed
qed

lemma special_has_dot: "prefix ''scipy.special'' path \<Longrightarrow> CHR ''.'' \<in> set path"
  by (auto simp: prefix_def)

lemma join_snoc: "xs \<noteq> [] \<Longrightarrow> join sep (xs @ [y]) = join sep xs @ sep @ y"
  by (induction sep xs rule: join.induct) auto

lemma render_standard_selection: "render standard_selection = ''np.intc(1)''"
  by (simp add: standard_selection_def string_of_nat.simps)

lemma render_impl_call:
  "flag \<longrightarrow> args \<noteq> [] \<Longrightarrow>
   render (impl_call args flag) =
     ''scalar_func_numba('' @ join '', '' (map render args) @
       (if flag then '', np.intc(1)'' else []) @ '')''"
  by (simp add: impl_call_def join_snoc render_standard_selection)

lemma render_map2_cast_arg:
  "map render (map2 cast_arg names tmp) =
     map (\<lambda>(i_name, i_tmp_dtype_name).
            ''direct_cast('' @ i_name @ '', '' @ i_tmp_dtype_name @ '')'') (zip names tmp)"
  by (induction names tmp rule: list_induct2') (simp_all add: cast_arg_def)

lemma render_cast_args:
  "join '', '' (map render (map2 cast_arg names tmp)) = converted_call_args names tmp"
  unfolding render_map2_cast_arg converted_call_args_def ..

lemma plain_src_render:
  "flag \<longrightarrow> names \<noteq> [] \<Longrightarrow>
   plain_src f (join '', '' names) flag =
     ''\<newline>'' @ render_def (plain_wrapper f names flag) @ ''\<newline>            ''"
  by (simp add: plain_src_def plain_wrapper_def render_impl_call comp_def)

lemma converting_src_render:
  "flag \<longrightarrow> zip names tmp \<noteq> [] \<Longrightarrow>
   converting_src f names tmp flag =
     ''\<newline>'' @ render_def (converting_wrapper f names tmp flag) @ ''\<newline>            ''"
proof -
  assume "flag \<longrightarrow> zip names tmp \<noteq> []"
  then have ne: "flag \<longrightarrow> map2 cast_arg names tmp \<noteq> []"
    by simp
  have body: "render (def_body (converting_wrapper f names tmp flag)) =
      ''direct_cast(scalar_func_numba('' @ converted_call_args names tmp @
        (if flag then '', np.intc(1)'' else []) @ ''), output_dtype)''"
    unfolding converting_wrapper_def def_body.simps render.simps list.map
      render_impl_call [OF ne] render_cast_args
    by simp
  have "render_def (converting_wrapper f names tmp flag) =
      ''def '' @ f @ ''('' @ join '', '' names @ ''):\<newline>    return '' @
      render (def_body (converting_wrapper f names tmp flag))"
    by (simp add: converting_wrapper_def)
  then show ?thesis
    unfolding body by (simp add: converting_src_def)
qed

lemma calls_cast_args_impl:
  "sum_list (map (calls_to ''scalar_func_numba'') (map2 cast_arg names tmp)) = 0"
  by (induction names tmp rule: list_induct2') (simp_all add: cast_arg_def)

lemma calls_cast_args_cast:
  "sum_list (map (calls_to ''direct_cast'') (map2 cast_arg names tmp)) = length (zip names tmp)"
  by (induction names tmp rule: list_induct2') (simp_all add: cast_arg_def)

lemma calls_converting_impl:
  "calls_to ''scalar_func_numba'' (def_body (converting_wrapper f names tmp flag)) = 1"
  using calls_cast_args_impl [of names tmp]
  by (simp add: converting_wrapper_def impl_call_def standard_selection_def)

lemma calls_converting_cast:
  "calls_to ''direct_cast'' (def_body (converting_wrapper f names tmp flag)) =
     length (zip names tmp) + 1"
  using calls_cast_args_cast [of names tmp] calls_cast_args_impl [of names tmp]
  by (simp add: converting_wrapper_def impl_call_def standard_selection_def)

lemma calls_plain_impl:
  "calls_to ''scalar_func_numba'' (def_body (plain_wrapper f names flag)) = 1"
  by (simp add: plain_wrapper_def impl_call_def standard_selection_def comp_def)

lemma digit_inj:
  "a < 10 \<Longrightarrow> b < 10 \<Longrightarrow> ''0123456789'' ! a = ''0123456789'' ! b \<Longrightarrow> a = b"
proof -
  assume a: "a < 10" and b: "b < 10" and eq: "''0123456789'' ! a = ''0123456789'' ! b"
  have "distinct ''0123456789''" by simp
  moreover have "a < length ''0123456789''" "b < length ''0123456789''" using a b by simp_all
  ultimately show "a = b" using eq by (simp only: nth_eq_iff_index_eq)
qed

lemma string_of_nat_nonempty: "string_of_nat n \<noteq> []"
  by (subst string_of_nat.simps) simp

lemma string_of_nat_inj: "string_of_nat n = string_of_nat m \<Longrightarrow> n = m"
proof (induction n arbitrary: m rule: string_of_nat.induct)
  case (1 n)
  show ?case
  proof (cases "n < 10")
    case small_n: True
    show ?thesis
    proof (cases "m < 10")
      case True
      with small_n "1.prems" show ?thesis
        by (subst (asm) (1 2) string_of_nat.simps) (simp add: digit_inj)
    next
      case False
      have "string_of_nat n = [''0123456789'' ! n]"
        using small_n by (subst string_of_nat.simps) simp
      moreover have "string_of_nat m = string_of_nat (m div 10) @ [''0123456789'' ! (m mod 10)]"
        using False by (subst string_of_nat.simps) simp
      ultimately have "string_of_nat (m div 10) = []"
        using "1.prems" by (metis append_butlast_last_id butlast_snoc list.distinct(1) butlast.simps(2))
      then show ?thesis using string_of_nat_nonempty by blast
    qed
  next
    case big_n: False
    have n: "string_of_nat n = string_of_nat (n div 10) @ [''0123456789'' ! (n mod 10)]"
      using big_n by (subst string_of_nat.simps) simp
    show ?thesis
    proof (cases "m < 10")
      case True
      have "string_of_nat m = [''0123456789'' ! m]"
        using True by (subst string_of_nat.simps) simp
      with n "1.prems" have "string_of_nat (n div 10) = []"
        by (metis append_butlast_last_id butlast_snoc list.distinct(1) butlast.simps(2))
      then show ?thesis using string_of_nat_nonempty by blast
    next
      case False
      have m: "string_of_nat m = string_of_nat (m div 10) @ [''0123456789'' ! (m mod 10)]"
        using False by (subst string_of_nat.simps) simp
      from n m "1.prems" have eqs: "string_of_nat (n div 10) = string_of_nat (m div 10)"
        "''0123456789'' ! (n mod 10) = ''0123456789'' ! (m mod 10)"
        by simp_all
      have "n div 10 = m div 10" using "1.IH" [OF big_n eqs(1)] .
      moreover have "n mod 10 = m mod 10" using eqs(2) by (intro digit_inj) simp_all
      ultimately show ?thesis by (metis div_mult_mod_eq)
    qed
  qed
qed

lemma tmp_dtype_name_inj: "tmp_dtype_name i = tmp_dtype_name j \<Longrightarrow> i = j"
  by (simp add: tmp_dtype_name_def string_of_nat_inj)

lemma map_fst_input_tmp_dtype_names:
  "map fst (input_tmp_dtype_names ds) = map tmp_dtype_name [0 ..< length ds]"
proof -
  have "map fst (input_tmp_dtype_names ds) = map (tmp_dtype_name \<circ> fst) (enumerate 0 ds)"
    by (simp add: input_tmp_dtype_names_def tmp_dtype_name_def split_def comp_def)
  also have "\<dots> = map tmp_dtype_name (map fst (enumerate 0 ds))"
    by (simp only: map_map)
  also have "\<dots> = map tmp_dtype_name [0 ..< length ds]"
    by simp
  finally show ?thesis .
qed

lemma length_input_tmp_dtype_names [simp]:
  "length (input_tmp_dtype_names ds) = length ds"
  by (simp add: input_tmp_dtype_names_def)

lemma input_tmp_dtype_names_nth:
  "i < length ds \<Longrightarrow> input_tmp_dtype_names ds ! i = (tmp_dtype_name i, ds ! i)"
  by (simp add: input_tmp_dtype_names_def tmp_dtype_name_def nth_enumerate_eq)

lemma distinct_tmp_names: "distinct (map fst (input_tmp_dtype_names ds))"
  unfolding map_fst_input_tmp_dtype_names
  by (simp add: distinct_map inj_on_def tmp_dtype_name_inj)

lemma tmp_name_not_fixed:
  "tmp_dtype_name i \<noteq> ''scalar_func_numba''" "tmp_dtype_name i \<noteq> ''direct_cast''"
  "tmp_dtype_name i \<noteq> ''output_dtype''"
  by (simp_all add: tmp_dtype_name_def)

lemma map_of_tmp_env:
  assumes "i < length ds"
  shows "map_of (map (\<lambda>(nm, d). (nm, Obj_dtype d)) (input_tmp_dtype_names ds)) (tmp_dtype_name i)
           = Some (Obj_dtype (ds ! i))"
proof -
  let ?env = "map (\<lambda>(nm, d). (nm, Obj_dtype d)) (input_tmp_dtype_names ds)"
  have "map fst ?env = map fst (input_tmp_dtype_names ds)"
    by (simp add: comp_def split_def)
  then have d: "distinct (map fst ?env)"
    by (metis distinct_tmp_names)
  have "?env ! i = (tmp_dtype_name i, Obj_dtype (ds ! i))"
    using assms by (simp add: input_tmp_dtype_names_nth)
  moreover have "i < length ?env" using assms by simp
  ultimately have "(tmp_dtype_name i, Obj_dtype (ds ! i)) \<in> set ?env"
    by (metis nth_mem)
  with d show ?thesis by (rule map_of_is_SomeI)
qed

lemma synthesize_converting:
  "snd (synthesize E node impl flag (Some (ds, od))) =
     Njit (create_numba_signature (inputs node) (outputs node) True) (numba__fastmath E)
       (Some False)
       (Compiled \<lparr> fn_src = converting_src (get_name_for_object E impl)
                     (fresh_names (unique_names E)
                        (unique_name_generator E
                           ([get_name_for_object E impl, ''scalar_func_numba''] @
                            map fst (converting_env impl ds od)) ''_'')
                        (inputs node))
                     (map fst (input_tmp_dtype_names ds)) flag,
                   fn_entry = get_name_for_object E impl,
                   fn_env = converting_env impl ds od \<rparr>)"
  by (simp add: synthesize_def Let_def converting_env_def)

lemma synthesize_plain:
  "snd (synthesize E node impl flag None) =
     Njit (create_numba_signature (inputs node) (outputs node) True) (numba__fastmath E)
       (Some False)
       (Compiled \<lparr> fn_src = plain_src (get_name_for_object E impl)
                     (join '', '' (fresh_names (unique_names E)
                        (unique_name_generator E
                           [get_name_for_object E impl, ''scalar_func_numba''] ''_'')
                        (inputs node))) flag,
                   fn_entry = get_name_for_object E impl,
                   fn_env = [(''scalar_func_numba'', Obj_impl impl)] \<rparr>)"
  by (simp add: synthesize_def Let_def)

lemma funcify_bridge:
  assumes spec: "nfunc_spec op = Some (path, nin, nout)"
    and special: "prefix ''scipy.special'' path"
    and found: "cython_special_has E (last (split_on CHR ''.'' path))"
    and wrapped: "wrap_cython_function E (last (split_on CHR ''.'' path))
                    (var_dtype (hd (outputs node))) (map var_dtype (inputs node)) = Inr (Some w)"
    and single: "length (outputs node) = 1"
  shows "numba_funcify_ScalarOp E op node kwargs =
     ([Getattr_cython_special (last (split_on CHR ''.'' path)),
       Call_wrap_cython_function (last (split_on CHR ''.'' path))] @
      fst (synthesize E node (Cython_wrapper w) (has_pyx_skip_dispatch w)
             (Some (numpy_arg_dtypes w, numpy_output_dtype w))),
      Inr (snd (synthesize E node (Cython_wrapper w) (has_pyx_skip_dispatch w)
             (Some (numpy_arg_dtypes w, numpy_output_dtype w)))))"
proof -
  have mp: "butlast (split_on CHR ''.'' path) \<noteq> []"
    using special by (intro split_on_sep special_has_dot)
  have outs: "outputs node \<noteq> []" using single by auto
  have hd: "hd (map var_dtype (outputs node)) = var_dtype (hd (outputs node))"
    using outs by (simp add: hd_map)
  have res: "resolve_cython E path (last (split_on CHR ''.'' path))
               (hd (map var_dtype (outputs node))) (map var_dtype (inputs node)) None =
             ([Getattr_cython_special (last (split_on CHR ''.'' path)),
               Call_wrap_cython_function (last (split_on CHR ''.'' path))],
              Inr (Some (Cython_wrapper w), has_pyx_skip_dispatch w,
                   Some (numpy_arg_dtypes w, numpy_output_dtype w)))"
    unfolding hd by (simp add: resolve_cython_def special found wrapped)
  show ?thesis
    by (simp add: numba_funcify_ScalarOp_def spec Let_def mp single res split_def)
qed

text \<open>
  Claim C1. Let a single-output node be lowered through the special-function bridge: the
  operator's descriptor starts with \<^verbatim>\<open>scipy.special\<close>, the Cython module has the routine
  and \<^verbatim>\<open>wrap_cython_function\<close> returns a wrapper \<open>w\<close>, with one working precision per
  input (and at least one input when the routine takes the dispatch argument). Then
  lowering succeeds, and the source of the kernel is the definition of a function whose
  parameters are the names the generator gives the inputs and whose body is
  \<^verbatim>\<open>direct_cast(scalar_func_numba(...), output_dtype)\<close>: the arguments of the inner call are
  \<^verbatim>\<open>direct_cast(p, inp_tmp_dtype_i)\<close> for every parameter \<open>p\<close> in position \<open>i\<close> (followed
  by \<^verbatim>\<open>np.intc(1)\<close> when the flag is set), there is exactly one call of
  \<^verbatim>\<open>scalar_func_numba\<close> and one \<^verbatim>\<open>direct_cast\<close> more than there are inputs, and the
  environment binds \<^verbatim>\<open>scalar_func_numba\<close> to \<open>w\<close>, \<^verbatim>\<open>inp_tmp_dtype_i\<close> to the working
  precision of argument \<open>i\<close> and \<^verbatim>\<open>output_dtype\<close> to that of the result.
\<close>

theorem converting_wrapper_casts:
  fixes E :: "('k, 'kv, 'g) externals"
  assumes spec: "nfunc_spec op = Some (path, nin, nout)"
    and special: "prefix ''scipy.special'' path"
    and found: "cython_special_has E (last (split_on CHR ''.'' path))"
    and wrapped: "wrap_cython_function E (last (split_on CHR ''.'' path))
                    (var_dtype (hd (outputs node))) (map var_dtype (inputs node)) = Inr (Some w)"
    and single: "length (outputs node) = 1"
    and arity: "length (numpy_arg_dtypes w) = length (inputs node)"
    and flagged: "has_pyx_skip_dispatch w \<longrightarrow> inputs node \<noteq> []"
  shows "\<exists>tr k g names body.
     numba_funcify_ScalarOp E op node kwargs = (tr, Inr k) \<and>
     names = fresh_names (unique_names E) g (inputs node) \<and>
     kernel_src k =
       ''\<newline>'' @ render_def (FunctionDef (get_name_for_object E (Cython_wrapper w)) names body) @
       ''\<newline>            '' \<and>
     body = Call (Name ''direct_cast'')
              [Call (Name ''scalar_func_numba'')
                 (map2 cast_arg names (map tmp_dtype_name [0 ..< length (inputs node)]) @
                  (if has_pyx_skip_dispatch w then [standard_selection] else [])),
               Name ''output_dtype''] \<and>
     length (map2 cast_arg names (map tmp_dtype_name [0 ..< length (inputs node)])) =
       length (inputs node) \<and>
     calls_to ''scalar_func_numba'' body = 1 \<and>
     calls_to ''direct_cast'' body = length (inputs node) + 1 \<and>
     map_of (kernel_env k) ''scalar_func_numba'' = Some (Obj_impl (Cython_wrapper w)) \<and>
     map_of (kernel_env k) ''direct_cast'' = Some Obj_direct_cast \<and>
     map_of (kernel_env k) ''output_dtype'' = Some (Obj_dtype (numpy_output_dtype w)) \<and>
     (\<forall>i < length (inputs node).
        map_of (kernel_env k) (tmp_dtype_name i) = Some (Obj_dtype (numpy_arg_dtypes w ! i)))"
proof -
  let ?impl = "Cython_wrapper w :: 'k impl"
  let ?f = "get_name_for_object E ?impl"
  let ?ds = "numpy_arg_dtypes w"
  let ?env = "converting_env ?impl ?ds (numpy_output_dtype w)"
  let ?g = "unique_name_generator E ([?f, ''scalar_func_numba''] @ map fst ?env) ''_''"
  let ?names = "fresh_names (unique_names E) ?g (inputs node)"
  let ?tmp = "map tmp_dtype_name [0 ..< length (inputs node)]"
  let ?flag = "has_pyx_skip_dispatch w"
  let ?W = "converting_wrapper ?f ?names ?tmp ?flag"
  let ?k = "snd (synthesize E node ?impl ?flag (Some (?ds, numpy_output_dtype w)))"
  have tmp: "map fst (input_tmp_dtype_names ?ds) = ?tmp"
    by (simp add: map_fst_input_tmp_dtype_names arity)
  have len: "length ?names = length (inputs node)"
    by (rule length_fresh_names)
  have zip_ne: "?flag \<longrightarrow> zip ?names ?tmp \<noteq> []"
    using flagged len by (cases "inputs node") (auto split: prod.splits)
  have src: "kernel_src ?k = ''\<newline>'' @ render_def ?W @ ''\<newline>            ''"
    unfolding synthesize_converting kernel_src.simps tmp
    using converting_src_render [OF zip_ne] by simp
  have env: "kernel_env ?k = ?env"
    unfolding synthesize_converting by simp
  have W: "?W = FunctionDef ?f ?names (def_body ?W)"
    by (simp add: converting_wrapper_def)
  have body: "def_body ?W = Call (Name ''direct_cast'')
              [Call (Name ''scalar_func_numba'')
                 (map2 cast_arg ?names ?tmp @ (if ?flag then [standard_selection] else [])),
               Name ''output_dtype'']"
    by (simp add: converting_wrapper_def impl_call_def)
  have c1: "calls_to ''scalar_func_numba'' (def_body ?W) = 1"
    by (rule calls_converting_impl)
  have c2: "calls_to ''direct_cast'' (def_body ?W) = length (inputs node) + 1"
    using calls_converting_cast [of ?f ?names ?tmp ?flag] len by simp
  have l2: "length (map2 cast_arg ?names ?tmp) = length (inputs node)"
    using len by simp
  have e1: "map_of ?env ''scalar_func_numba'' = Some (Obj_impl ?impl)"
    and e2: "map_of ?env ''direct_cast'' = Some Obj_direct_cast"
    and e3: "map_of ?env ''output_dtype'' = Some (Obj_dtype (numpy_output_dtype w))"
    by (simp_all add: converting_env_def)
  have e4: "map_of ?env (tmp_dtype_name i) = Some (Obj_dtype (?ds ! i))"
    if "i < length (inputs node)" for i
    using that arity map_of_tmp_env [of i ?ds]
    by (simp add: converting_env_def tmp_name_not_fixed)
  have run: "numba_funcify_ScalarOp E op node kwargs =
      ([Getattr_cython_special (last (split_on CHR ''.'' path)),
        Call_wrap_cython_function (last (split_on CHR ''.'' path))] @
       fst (synthesize E node ?impl ?flag (Some (?ds, numpy_output_dtype w))), Inr ?k)"
    by (rule funcify_bridge [OF spec special found wrapped single])
  show ?thesis
    apply (rule exI [of _ "[Getattr_cython_special (last (split_on CHR ''.'' path)),
        Call_wrap_cython_function (last (split_on CHR ''.'' path))] @
       fst (synthesize E node ?impl ?flag (Some (?ds, numpy_output_dtype w)))"])
    apply (rule exI [of _ ?k])
    apply (rule exI [of _ ?g])
    apply (rule exI [of _ ?names])
    apply (rule exI [of _ "def_body ?W"])
    using run src W body c1 c2 l2 e1 e2 e3 e4 env
    apply (intro conjI)
              apply simp_all
    done
qed

lemma resolve_cython_cases:
  assumes "resolve_cython E path nm od ids numba1 = (tr2, Inr (numba2, flag, inner))"
  shows "(numba2 = numba1 \<and> flag = False \<and> inner = None) \<or>
         (\<exists>w. wrap_cython_function E nm od ids = Inr (Some w) \<and>
              numba2 = Some (Cython_wrapper w) \<and> flag = has_pyx_skip_dispatch w \<and>
              inner = Some (numpy_arg_dtypes w, numpy_output_dtype w))"
  using assms
  by (auto simp: resolve_cython_def split: if_splits sum.splits option.splits)

lemma funcify_cases:
  assumes ok: "numba_funcify_ScalarOp E op node kwargs = (tr, Inr k)"
    and spec: "nfunc_spec op = Some spec"
  shows "(\<exists>impl. (\<forall>w. impl \<noteq> Cython_wrapper w) \<and> k = snd (synthesize E node impl False None)) \<or>
         (\<exists>nm od w. wrap_cython_function E nm od (map var_dtype (inputs node)) = Inr (Some w) \<and>
              k = snd (synthesize E node (Cython_wrapper w) (has_pyx_skip_dispatch w)
                         (Some (numpy_arg_dtypes w, numpy_output_dtype w))))"
proof -
  let ?parts = "split_on CHR ''.'' (fst spec)"
  let ?nm = "last ?parts"
  let ?numba1 = "if butlast ?parts = [] then Some (Np_attr ?nm) else None"
  let ?od = "hd (map var_dtype (outputs node))"
  let ?ids = "map var_dtype (inputs node)"
  obtain tr2 r where res: "resolve_cython E (fst spec) ?nm ?od ?ids ?numba1 = (tr2, r)"
    by (cases "resolve_cython E (fst spec) ?nm ?od ?ids ?numba1") auto
  from ok spec res obtain numba2 flag inner where
    r: "r = Inr (numba2, flag, inner)" and
    k: "k = snd (synthesize E node
                   (case numba2 of None \<Rightarrow> Fallback_impl (generate_fallback_impl E op node kwargs)
                    | Some f \<Rightarrow> f) flag inner)"
    by (cases r)
       (auto simp: numba_funcify_ScalarOp_def Let_def split_def
             split: if_splits option.splits)
  from resolve_cython_cases [OF res [unfolded r]]
  show ?thesis
  proof
    assume "numba2 = ?numba1 \<and> flag = False \<and> inner = None"
    then have "k = snd (synthesize E node
                   (case ?numba1 of None \<Rightarrow> Fallback_impl (generate_fallback_impl E op node kwargs)
                    | Some f \<Rightarrow> f) False None)"
      using k by simp
    moreover have "\<forall>w. (case ?numba1 of None \<Rightarrow> Fallback_impl (generate_fallback_impl E op node kwargs)
                    | Some f \<Rightarrow> f) \<noteq> Cython_wrapper w"
      by simp
    ultimately show ?thesis by blast
  next
    assume "\<exists>w. wrap_cython_function E ?nm ?od ?ids = Inr (Some w) \<and>
              numba2 = Some (Cython_wrapper w) \<and> flag = has_pyx_skip_dispatch w \<and>
              inner = Some (numpy_arg_dtypes w, numpy_output_dtype w)"
    then obtain w where w: "wrap_cython_function E ?nm ?od ?ids = Inr (Some w)"
      and rest: "numba2 = Some (Cython_wrapper w)" "flag = has_pyx_skip_dispatch w"
        "inner = Some (numpy_arg_dtypes w, numpy_output_dtype w)"
      by blast
    have "k = snd (synthesize E node (Cython_wrapper w) (has_pyx_skip_dispatch w)
                     (Some (numpy_arg_dtypes w, numpy_output_dtype w)))"
      using k rest by simp
    with w show ?thesis by blast
  qed
qed

lemma standard_selection_not_forwarded:
  "standard_selection \<notin> set (map Name names)"
  "standard_selection \<notin> set (map2 cast_arg names tmp)"
  by (auto simp: standard_selection_def cast_arg_def)

text \<open>
  Claim C4. Whenever an operator with a descriptor is lowered to a kernel (and the bridge,
  where it is used, returns one working precision per input), the source of the kernel is
  the definition of a function over the generated parameter names that calls
  \<^verbatim>\<open>scalar_func_numba\<close> once, on the parameters in their order (each as it is, or each
  inside its \<^verbatim>\<open>direct_cast\<close> when the implementation is a wrapped Cython function),
  followed by \<^verbatim>\<open>np.intc(1)\<close> if and only if the implementation requires the
  dispatch-control argument.
\<close>

theorem wrapper_forwards_parameters:
  fixes E :: "('k, 'kv, 'g) externals"
  assumes ok: "numba_funcify_ScalarOp E op node kwargs = (tr, Inr k)"
    and desc: "nfunc_spec op \<noteq> None"
    and bridge: "\<forall>nm od w. wrap_cython_function E nm od (map var_dtype (inputs node)) = Inr (Some w)
                   \<longrightarrow> length (numpy_arg_dtypes w) = length (inputs node) \<and>
                       (has_pyx_skip_dispatch w \<longrightarrow> inputs node \<noteq> [])"
  shows "\<exists>f g names impl forwarded args body.
     names = fresh_names (unique_names E) g (inputs node) \<and>
     map_of (kernel_env k) ''scalar_func_numba'' = Some (Obj_impl impl) \<and>
     f = get_name_for_object E impl \<and>
     kernel_src k =
       ''\<newline>'' @ render_def (FunctionDef f names body) @ ''\<newline>            '' \<and>
     body = (if converts impl
             then Call (Name ''direct_cast'')
                    [Call (Name ''scalar_func_numba'') args, Name ''output_dtype'']
             else Call (Name ''scalar_func_numba'') args) \<and>
     args = forwarded @ (if requires_dispatch impl then [standard_selection] else []) \<and>
     forwarded = (if converts impl
                  then map2 cast_arg names (map tmp_dtype_name [0 ..< length names])
                  else map Name names) \<and>
     length forwarded = length (inputs node) \<and>
     standard_selection \<notin> set forwarded \<and>
     (requires_dispatch impl \<longleftrightarrow> standard_selection \<in> set args)"
proof -
  obtain spec where spec: "nfunc_spec op = Some spec"
    using desc by auto
  from funcify_cases [OF ok spec]
  show ?thesis
  proof (elim disjE exE conjE)
    fix impl :: "'k impl"
    assume nc: "\<forall>w. impl \<noteq> Cython_wrapper w"
      and k: "k = snd (synthesize E node impl False None)"
    let ?f = "get_name_for_object E impl"
    let ?g = "unique_name_generator E [?f, ''scalar_func_numba''] ''_''"
    let ?names = "fresh_names (unique_names E) ?g (inputs node)"
    have rd: "\<not> requires_dispatch impl" "\<not> converts impl"
      using nc by (cases impl; simp)+
    have src: "kernel_src k = ''\<newline>'' @ render_def (plain_wrapper ?f ?names False) @
                 ''\<newline>            ''"
      unfolding k synthesize_plain kernel_src.simps
      using plain_src_render [of False ?names ?f] by simp
    have env: "map_of (kernel_env k) ''scalar_func_numba'' = Some (Obj_impl impl)"
      unfolding k synthesize_plain by simp
    have W: "plain_wrapper ?f ?names False =
               FunctionDef ?f ?names (Call (Name ''scalar_func_numba'') (map Name ?names))"
      by (simp add: plain_wrapper_def impl_call_def)
    show ?thesis
      apply (rule exI [of _ ?f])
      apply (rule exI [of _ ?g])
      apply (rule exI [of _ ?names])
      apply (rule exI [of _ impl])
      apply (rule exI [of _ "map Name ?names"])
      apply (rule exI [of _ "map Name ?names"])
      apply (rule exI [of _ "Call (Name ''scalar_func_numba'') (map Name ?names)"])
      using src env rd W standard_selection_not_forwarded(1) [of ?names]
      apply (simp add: length_fresh_names)
      done
  next
    fix nm od w
    assume w: "wrap_cython_function E nm od (map var_dtype (inputs node)) = Inr (Some w)"
      and k: "k = snd (synthesize E node (Cython_wrapper w) (has_pyx_skip_dispatch w)
                         (Some (numpy_arg_dtypes w, numpy_output_dtype w)))"
    let ?impl = "Cython_wrapper w :: 'k impl"
    let ?f = "get_name_for_object E ?impl"
    let ?ds = "numpy_arg_dtypes w"
    let ?env = "converting_env ?impl ?ds (numpy_output_dtype w)"
    let ?g = "unique_name_generator E ([?f, ''scalar_func_numba''] @ map fst ?env) ''_''"
    let ?names = "fresh_names (unique_names E) ?g (inputs node)"
    let ?tmp = "map tmp_dtype_name [0 ..< length ?names]"
    let ?flag = "has_pyx_skip_dispatch w"
    let ?fw = "map2 cast_arg ?names ?tmp"
    let ?args = "?fw @ (if ?flag then [standard_selection] else [])"
    from bridge w have arity: "length ?ds = length (inputs node)"
      and flagged: "?flag \<longrightarrow> inputs node \<noteq> []"
      by blast+
    have len: "length ?names = length (inputs node)"
      by (rule length_fresh_names)
    have tmp: "map fst (input_tmp_dtype_names ?ds) = ?tmp"
      by (simp add: map_fst_input_tmp_dtype_names arity length_fresh_names)
    have zip_ne: "?flag \<longrightarrow> zip ?names ?tmp \<noteq> []"
      using flagged len by (cases "inputs node") (auto split: prod.splits)
    have src: "kernel_src k = ''\<newline>'' @ render_def (converting_wrapper ?f ?names ?tmp ?flag) @
                 ''\<newline>            ''"
      unfolding k synthesize_converting kernel_src.simps tmp
      using converting_src_render [OF zip_ne] by simp
    have env: "map_of (kernel_env k) ''scalar_func_numba'' = Some (Obj_impl ?impl)"
      unfolding k synthesize_converting by (simp add: converting_env_def)
    have W: "converting_wrapper ?f ?names ?tmp ?flag =
               FunctionDef ?f ?names
                 (Call (Name ''direct_cast'')
                    [Call (Name ''scalar_func_numba'') ?args, Name ''output_dtype''])"
      by (simp add: converting_wrapper_def impl_call_def)
    show ?thesis
      apply (rule exI [of _ ?f])
      apply (rule exI [of _ ?g])
      apply (rule exI [of _ ?names])
      apply (rule exI [of _ ?impl])
      apply (rule exI [of _ ?fw])
      apply (rule exI [of _ ?args])
      apply (rule exI [of _ "Call (Name ''direct_cast'')
                    [Call (Name ''scalar_func_numba'') ?args, Name ''output_dtype'']"])
      using src env W standard_selection_not_forwarded(2) [of ?names ?tmp] len
      apply simp
      done
  qed
qed

text \<open>
  Claim C5. A kernel the synthesizer returns whose environment binds a wrapped Cython
  function (a foreign function pointer) was made by \<^verbatim>\<open>numba_njit\<close> with \<^verbatim>\<open>cache=False\<close>.
\<close>

theorem foreign_kernels_not_cached:
  assumes ok: "numba_funcify_ScalarOp E op node kwargs = (tr, Inr k)"
    and foreign: "calls_foreign k"
  shows "njit_cache k = Some False"
proof (cases "nfunc_spec op")
  case None
  with ok have "k = Plain (generate_fallback_impl E op node kwargs)"
    by (simp add: numba_funcify_ScalarOp_def)
  with foreign show ?thesis by (simp add: calls_foreign_def)
next
  case (Some spec)
  from funcify_cases [OF ok Some] show ?thesis
    by (auto simp: synthesize_def Let_def split: option.splits prod.splits)
qed

text \<open>
  Claim C2, as stated, fails for a bare descriptor that numpy does not have: the lookup
  of line 50 comes before the check of the outputs at line 55 and raises AttributeError.
\<close>

theorem multi_output_bare_name_counterexample:
  "nfunc_spec nosuch_op = Some (''nosuch'', 1, 2) \<and>
   length (outputs two_output_node) = 2 \<and>
   numba_funcify_ScalarOp demo_externals nosuch_op two_output_node [] =
     ([Getattr_np ''nosuch''], Inl (AttributeError ''nosuch''))"
  by code_simp

text \<open>
  Claim C2, amended. For an operator whose descriptor is a dotted path, or a bare name that
  numpy has, and a node with more than one output, lowering ends with the ValueError
  "ScalarOps with more than one output are not supported"; before it, lowering has looked
  the bare name up in numpy and called nothing else: no name generation, no source
  compilation, no signature, no specialization.
\<close>

theorem multi_output_fails_fast:
  assumes spec: "nfunc_spec op = Some (path, nin, nout)"
    and multi: "1 < length (outputs node)"
    and numpy: "CHR ''.'' \<notin> set path \<longrightarrow> np_has E path"
  shows "numba_funcify_ScalarOp E op node kwargs =
           (if CHR ''.'' \<in> set path then [] else [Getattr_np path], Inl multi_output_error) \<and>
         filter synthesis_work (fst (numba_funcify_ScalarOp E op node kwargs)) = []"
proof (cases "CHR ''.'' \<in> set path")
  case True
  then have "butlast (split_on CHR ''.'' path) \<noteq> []"
    by (rule split_on_sep)
  with True multi spec show ?thesis
    by (simp add: numba_funcify_ScalarOp_def Let_def multi_output_error_def)
next
  case False
  then have "split_on CHR ''.'' path = [path]"
    by (rule split_on_no_sep)
  with False multi spec numpy show ?thesis
    by (simp add: numba_funcify_ScalarOp_def Let_def multi_output_error_def)
qed

theorem multi_output_fails_fast_witness:
  "nfunc_spec modf_op = Some (''modf'', 1, 2) \<and>
   1 < length (outputs two_output_node) \<and>
   np_has demo_externals ''modf'' \<and>
   numba_funcify_ScalarOp demo_externals modf_op two_output_node [] =
     ([Getattr_np ''modf''], Inl multi_output_error) \<and>
   nfunc_spec sici_op = Some (''scipy.special.sici'', 1, 2) \<and>
   numba_funcify_ScalarOp demo_externals sici_op two_output_node [] =
     ([], Inl multi_output_error)"
proof -
  have h1: "nfunc_spec modf_op = Some (''modf'', 1, 2)"
    by (simp add: modf_op_def)
  have h2: "1 < length (outputs two_output_node)"
    by (simp add: two_output_node_def)
  have h3: "CHR ''.'' \<notin> set ''modf'' \<longrightarrow> np_has demo_externals ''modf''"
    by (simp add: demo_externals_def)
  have g1: "nfunc_spec sici_op = Some (''scipy.special.sici'', 1, 2)"
    by (simp add: sici_op_def)
  have g3: "CHR ''.'' \<notin> set ''scipy.special.sici'' \<longrightarrow>
            np_has demo_externals ''scipy.special.sici''"
    by simp
  show ?thesis
    using multi_output_fails_fast [OF h1 h2 h3, of "[]"]
      multi_output_fails_fast [OF g1 h2 g3, of "[]"] h1 h2 h3 g1
    by simp
qed

lemma no_descriptor_falls_back:
  "nfunc_spec op = None \<Longrightarrow>
   numba_funcify_ScalarOp E op node kwargs =
     ([Call_generate_fallback_impl], Inr (Plain (generate_fallback_impl E op node kwargs)))"
  by (simp add: numba_funcify_ScalarOp_def)

lemma absent_routine_falls_back:
  assumes spec: "nfunc_spec op = Some (path, nin, nout)"
    and special: "prefix ''scipy.special'' path"
    and absent: "\<not> cython_special_has E (last (split_on CHR ''.'' path))"
    and single: "length (outputs node) = 1"
  shows "snd (numba_funcify_ScalarOp E op node kwargs) =
           Inr (snd (synthesize E node (Fallback_impl (generate_fallback_impl E op node kwargs))
                       False None))"
proof -
  have mp: "butlast (split_on CHR ''.'' path) \<noteq> []"
    using special by (intro split_on_sep special_has_dot)
  show ?thesis
    by (simp add: numba_funcify_ScalarOp_def spec Let_def mp single resolve_cython_def
          special absent split_def)
qed

lemma bridge_failure_propagates:
  assumes spec: "nfunc_spec op = Some (path, nin, nout)"
    and special: "prefix ''scipy.special'' path"
    and found: "cython_special_has E (last (split_on CHR ''.'' path))"
    and single: "length (outputs node) = 1"
  shows "wrap_cython_function E (last (split_on CHR ''.'' path))
           (var_dtype (hd (outputs node))) (map var_dtype (inputs node)) = Inl err \<Longrightarrow>
         snd (numba_funcify_ScalarOp E op node kwargs) = Inl err"
    and "wrap_cython_function E (last (split_on CHR ''.'' path))
           (var_dtype (hd (outputs node))) (map var_dtype (inputs node)) = Inr None \<Longrightarrow>
         snd (numba_funcify_ScalarOp E op node kwargs) =
           Inl (AttributeError ''has_pyx_skip_dispatch'')"
proof -
  have mp: "butlast (split_on CHR ''.'' path) \<noteq> []"
    using special by (intro split_on_sep special_has_dot)
  have outs: "outputs node \<noteq> []" using single by auto
  have hd: "hd (map var_dtype (outputs node)) = var_dtype (hd (outputs node))"
    using outs by (simp add: hd_map)
  show "wrap_cython_function E (last (split_on CHR ''.'' path))
           (var_dtype (hd (outputs node))) (map var_dtype (inputs node)) = Inl err \<Longrightarrow>
         snd (numba_funcify_ScalarOp E op node kwargs) = Inl err"
    by (simp add: numba_funcify_ScalarOp_def spec Let_def mp single resolve_cython_def
          special found hd split_def)
  show "wrap_cython_function E (last (split_on CHR ''.'' path))
           (var_dtype (hd (outputs node))) (map var_dtype (inputs node)) = Inr None \<Longrightarrow>
         snd (numba_funcify_ScalarOp E op node kwargs) =
           Inl (AttributeError ''has_pyx_skip_dispatch'')"
    by (simp add: numba_funcify_ScalarOp_def spec Let_def mp single resolve_cython_def
          special found hd split_def)
qed

text \<open>
  Claim C3 at the input where the code departs from it: the Cython module has
  \<^verbatim>\<open>gammaln\<close>, the bridge has no signature for a complex argument and raises
  NotImplementedError, and lowering ends with that error instead of falling back.
\<close>

theorem unavailable_dtype_combination_raises:
  "nfunc_spec gammaln_op = Some (''scipy.special.gammaln'', 1, 1) \<and>
   cython_special_has demo_externals ''gammaln'' \<and>
   wrap_cython_function demo_externals ''gammaln'' ''complex128'' [''complex128''] =
     Inl NotImplementedError \<and>
   numba_funcify_ScalarOp demo_externals gammaln_op complex_node [] =
     ([Getattr_cython_special ''gammaln'', Call_wrap_cython_function ''gammaln''],
      Inl NotImplementedError)"
  by code_simp

lemma erf_run: "snd (numba_funcify_ScalarOp demo_externals erf_op float32_node []) = Inr erf_kernel"
  by code_simp

lemma exp_run: "snd (numba_funcify_ScalarOp demo_externals exp_op float32_node []) = Inr exp_kernel"
  by code_simp

lemma demo_bridge_arity:
  "wrap_cython_function demo_externals nm od ids = Inr (Some w) \<Longrightarrow>
   length (numpy_arg_dtypes w) = length ids"
  by (auto simp: demo_externals_def split: if_splits)

theorem converting_wrapper_casts_witness:
  "nfunc_spec erf_op = Some (''scipy.special.erf'', 1, 1) \<and>
   prefix ''scipy.special'' ''scipy.special.erf'' \<and>
   cython_special_has demo_externals ''erf'' \<and>
   wrap_cython_function demo_externals ''erf'' ''float32'' [''float32''] = Inr (Some erf_wrapper) \<and>
   length (outputs float32_node) = 1 \<and>
   length (numpy_arg_dtypes erf_wrapper) = length (inputs float32_node) \<and>
   inputs float32_node \<noteq> [] \<and>
   snd (numba_funcify_ScalarOp demo_externals erf_op float32_node []) = Inr erf_kernel \<and>
   (\<exists>names body.
      kernel_src erf_kernel =
        ''\<newline>'' @ render_def (FunctionDef ''erf'' names body) @ ''\<newline>            '' \<and>
      body = Call (Name ''direct_cast'')
              [Call (Name ''scalar_func_numba'')
                 (map2 cast_arg names [''inp_tmp_dtype_0''] @ [standard_selection]),
               Name ''output_dtype''] \<and>
      calls_to ''scalar_func_numba'' body = 1 \<and>
      calls_to ''direct_cast'' body = 2) \<and>
   map_of (kernel_env erf_kernel) ''inp_tmp_dtype_0'' = Some (Obj_dtype ''float64'') \<and>
   map_of (kernel_env erf_kernel) ''output_dtype'' = Some (Obj_dtype ''float64'')"
proof -
  have nm: "last (split_on CHR ''.'' ''scipy.special.erf'') = ''erf''"
    by simp
  have h1: "nfunc_spec erf_op = Some (''scipy.special.erf'', 1, 1)"
    by (simp add: erf_op_def)
  have h2: "prefix ''scipy.special'' ''scipy.special.erf''"
    by simp
  have h3: "cython_special_has demo_externals (last (split_on CHR ''.'' ''scipy.special.erf''))"
    unfolding nm by (simp add: demo_externals_def)
  have h4: "wrap_cython_function demo_externals (last (split_on CHR ''.'' ''scipy.special.erf''))
              (var_dtype (hd (outputs float32_node))) (map var_dtype (inputs float32_node)) =
            Inr (Some erf_wrapper)"
    unfolding nm by (simp add: demo_externals_def float32_node_def var_def erf_wrapper_def)
  have h5: "length (outputs float32_node) = 1"
    by (simp add: float32_node_def)
  have h6: "length (numpy_arg_dtypes erf_wrapper) = length (inputs float32_node)"
    by (simp add: float32_node_def erf_wrapper_def)
  have h7: "has_pyx_skip_dispatch erf_wrapper \<longrightarrow> inputs float32_node \<noteq> []"
    by (simp add: float32_node_def)
  from converting_wrapper_casts [OF h1 h2 h3 h4 h5 h6 h7, of "[]"]
  obtain tr k g names body where
    run: "numba_funcify_ScalarOp demo_externals erf_op float32_node [] = (tr, Inr k)"
    and src: "kernel_src k =
       ''\<newline>'' @ render_def (FunctionDef (get_name_for_object demo_externals
                                          (Cython_wrapper erf_wrapper)) names body) @
       ''\<newline>            ''"
    and body: "body = Call (Name ''direct_cast'')
              [Call (Name ''scalar_func_numba'')
                 (map2 cast_arg names (map tmp_dtype_name [0 ..< length (inputs float32_node)]) @
                  (if has_pyx_skip_dispatch erf_wrapper then [standard_selection] else [])),
               Name ''output_dtype'']"
    and calls: "calls_to ''scalar_func_numba'' body = 1"
      "calls_to ''direct_cast'' body = length (inputs float32_node) + 1"
    and envs: "map_of (kernel_env k) ''output_dtype'' =
                 Some (Obj_dtype (numpy_output_dtype erf_wrapper))"
      "\<forall>i < length (inputs float32_node).
          map_of (kernel_env k) (tmp_dtype_name i) = Some (Obj_dtype (numpy_arg_dtypes erf_wrapper ! i))"
    by blast
  have k: "k = erf_kernel"
    using run erf_run by simp
  have f: "get_name_for_object demo_externals (Cython_wrapper erf_wrapper) = ''erf''"
    by (simp add: demo_externals_def erf_wrapper_def)
  have t0: "tmp_dtype_name 0 = ''inp_tmp_dtype_0''"
    by (simp add: tmp_dtype_name_def string_of_nat.simps)
  have len1: "length (inputs float32_node) = 1"
    by (simp add: float32_node_def)
  have "\<exists>names body.
      kernel_src erf_kernel =
        ''\<newline>'' @ render_def (FunctionDef ''erf'' names body) @ ''\<newline>            '' \<and>
      body = Call (Name ''direct_cast'')
              [Call (Name ''scalar_func_numba'')
                 (map2 cast_arg names [''inp_tmp_dtype_0''] @ [standard_selection]),
               Name ''output_dtype''] \<and>
      calls_to ''scalar_func_numba'' body = 1 \<and>
      calls_to ''direct_cast'' body = 2"
    using src body calls unfolding k f len1
    by (intro exI [of _ names] exI [of _ body]) (simp add: t0 erf_wrapper_def)
  moreover have "map_of (kernel_env erf_kernel) ''inp_tmp_dtype_0'' = Some (Obj_dtype ''float64'')"
    using envs(2) unfolding k len1 by (simp add: t0 erf_wrapper_def)
  moreover have "map_of (kernel_env erf_kernel) ''output_dtype'' = Some (Obj_dtype ''float64'')"
    using envs(1) unfolding k by (simp add: erf_wrapper_def)
  moreover have "inputs float32_node \<noteq> []"
    by (simp add: float32_node_def)
  moreover have "cython_special_has demo_externals ''erf''"
    using h3 unfolding nm .
  moreover have "wrap_cython_function demo_externals ''erf'' ''float32'' [''float32''] =
                   Inr (Some erf_wrapper)"
    using h4 unfolding nm by (simp add: float32_node_def var_def)
  ultimately show ?thesis
    using h1 h2 h5 h6 erf_run by simp
qed

theorem wrapper_forwards_parameters_witness:
  "snd (numba_funcify_ScalarOp demo_externals erf_op float32_node []) = Inr erf_kernel \<and>
   nfunc_spec erf_op \<noteq> None \<and>
   (\<exists>names.
      kernel_src erf_kernel =
        ''\<newline>'' @ render_def (FunctionDef ''erf'' names
           (Call (Name ''direct_cast'')
              [Call (Name ''scalar_func_numba'')
                 (map2 cast_arg names [''inp_tmp_dtype_0''] @ [standard_selection]),
               Name ''output_dtype''])) @
        ''\<newline>            '' \<and>
      length names = 1) \<and>
   snd (numba_funcify_ScalarOp demo_externals exp_op float32_node []) = Inr exp_kernel \<and>
   nfunc_spec exp_op \<noteq> None \<and>
   (\<exists>names.
      kernel_src exp_kernel =
        ''\<newline>'' @ render_def (FunctionDef ''exp'' names
           (Call (Name ''scalar_func_numba'') (map Name names))) @
        ''\<newline>            '' \<and>
      length names = 1)"
proof -
  have bridge: "\<forall>nm od w.
                wrap_cython_function demo_externals nm od (map var_dtype (inputs float32_node)) =
                  Inr (Some w) \<longrightarrow>
                length (numpy_arg_dtypes w) = length (inputs float32_node) \<and>
                (has_pyx_skip_dispatch w \<longrightarrow> inputs float32_node \<noteq> [])"
    using demo_bridge_arity by (auto simp: float32_node_def)
  have d1: "nfunc_spec erf_op \<noteq> None" by (simp add: erf_op_def)
  have d2: "nfunc_spec exp_op \<noteq> None" by (simp add: exp_op_def)
  have r1: "numba_funcify_ScalarOp demo_externals erf_op float32_node [] =
              (fst (numba_funcify_ScalarOp demo_externals erf_op float32_node []), Inr erf_kernel)"
    by (rule prod_eqI) (simp_all add: erf_run)
  have r2: "numba_funcify_ScalarOp demo_externals exp_op float32_node [] =
              (fst (numba_funcify_ScalarOp demo_externals exp_op float32_node []), Inr exp_kernel)"
    by (rule prod_eqI) (simp_all add: exp_run)
  have len1: "length (inputs float32_node) = 1"
    by (simp add: float32_node_def)
  have e1: "map_of (kernel_env erf_kernel) ''scalar_func_numba'' =
              Some (Obj_impl (Cython_wrapper erf_wrapper))"
    by (simp add: erf_kernel_def)
  have e2: "map_of (kernel_env exp_kernel) ''scalar_func_numba'' = Some (Obj_impl (Np_attr ''exp''))"
    by (simp add: exp_kernel_def)
  have t0: "tmp_dtype_name 0 = ''inp_tmp_dtype_0''"
    by (simp add: tmp_dtype_name_def string_of_nat.simps)
  have erf: "\<exists>names.
      kernel_src erf_kernel =
        ''\<newline>'' @ render_def (FunctionDef ''erf'' names
           (Call (Name ''direct_cast'')
              [Call (Name ''scalar_func_numba'')
                 (map2 cast_arg names [''inp_tmp_dtype_0''] @ [standard_selection]),
               Name ''output_dtype''])) @
        ''\<newline>            '' \<and>
      length names = 1"
    using wrapper_forwards_parameters [OF r1 d1 bridge]
  proof (elim exE conjE)
    fix f g names impl forwarded args body
    assume names: "names = fresh_names (unique_names demo_externals) g (inputs float32_node)"
      and impl: "map_of (kernel_env erf_kernel) ''scalar_func_numba'' = Some (Obj_impl impl)"
      and f: "f = get_name_for_object demo_externals impl"
      and src: "kernel_src erf_kernel =
         ''\<newline>'' @ render_def (FunctionDef f names body) @ ''\<newline>            ''"
      and body: "body = (if converts impl
             then Call (Name ''direct_cast'')
                    [Call (Name ''scalar_func_numba'') args, Name ''output_dtype'']
             else Call (Name ''scalar_func_numba'') args)"
      and args: "args = forwarded @ (if requires_dispatch impl then [standard_selection] else [])"
      and fw: "forwarded = (if converts impl
                  then map2 cast_arg names (map tmp_dtype_name [0 ..< length names])
                  else map Name names)"
    have i: "impl = Cython_wrapper erf_wrapper"
      using impl e1 by simp
    have l: "length names = 1"
      unfolding names by (simp add: length_fresh_names len1)
    have b: "body = Call (Name ''direct_cast'')
              [Call (Name ''scalar_func_numba'')
                 (map2 cast_arg names [''inp_tmp_dtype_0''] @ [standard_selection]),
               Name ''output_dtype'']"
      unfolding body args fw i using l by (simp add: erf_wrapper_def t0)
    have fe: "f = ''erf''"
      unfolding f i by (simp add: demo_externals_def erf_wrapper_def)
    show ?thesis
      apply (rule exI [of _ names])
      using src l unfolding b fe
      apply (intro conjI)
       apply assumption+
      done
  qed
  have exp: "\<exists>names.
      kernel_src exp_kernel =
        ''\<newline>'' @ render_def (FunctionDef ''exp'' names
           (Call (Name ''scalar_func_numba'') (map Name names))) @
        ''\<newline>            '' \<and>
      length names = 1"
    using wrapper_forwards_parameters [OF r2 d2 bridge]
  proof (elim exE conjE)
    fix f g names impl forwarded args body
    assume names: "names = fresh_names (unique_names demo_externals) g (inputs float32_node)"
      and impl: "map_of (kernel_env exp_kernel) ''scalar_func_numba'' = Some (Obj_impl impl)"
      and f: "f = get_name_for_object demo_externals impl"
      and src: "kernel_src exp_kernel =
         ''\<newline>'' @ render_def (FunctionDef f names body) @ ''\<newline>            ''"
      and body: "body = (if converts impl
             then Call (Name ''direct_cast'')
                    [Call (Name ''scalar_func_numba'') args, Name ''output_dtype'']
             else Call (Name ''scalar_func_numba'') args)"
      and args: "args = forwarded @ (if requires_dispatch impl then [standard_selection] else [])"
      and fw: "forwarded = (if converts impl
                  then map2 cast_arg names (map tmp_dtype_name [0 ..< length names])
                  else map Name names)"
    have i: "impl = Np_attr ''exp''"
      using impl e2 by simp
    have l: "length names = 1"
      unfolding names by (simp add: length_fresh_names len1)
    have b: "body = Call (Name ''scalar_func_numba'') (map Name names)"
      unfolding body args fw i by simp
    have fe: "f = ''exp''"
      unfolding f i by (simp add: demo_externals_def)
    show ?thesis
      apply (rule exI [of _ names])
      using src l unfolding b fe
      apply (intro conjI)
       apply assumption+
      done
  qed
  show ?thesis
    using erf exp erf_run exp_run d1 d2 by (intro conjI)
qed

theorem foreign_kernels_not_cached_witness:
  "snd (numba_funcify_ScalarOp demo_externals erf_op float32_node []) = Inr erf_kernel \<and>
   calls_foreign erf_kernel \<and>
   njit_cache erf_kernel = Some False"
proof -
  have r1: "numba_funcify_ScalarOp demo_externals erf_op float32_node [] =
              (fst (numba_funcify_ScalarOp demo_externals erf_op float32_node []), Inr erf_kernel)"
    by (rule prod_eqI) (simp_all add: erf_run)
  have cf: "calls_foreign erf_kernel"
    by (simp add: calls_foreign_def erf_kernel_def)
  show ?thesis
    using foreign_kernels_not_cached [OF r1 cf] cf erf_run by simp
qed


section \<open>Properties of the composite fusion lowerer\<close>

text \<open>
  Claim C6. When the keyword context does not itself carry \<^verbatim>\<open>squeeze_output\<close>, lowering a
  Composite calls the subgraph lowering exactly once, on the Composite's own function
  graph, with \<^verbatim>\<open>squeeze_output=True\<close> and the context without its \<^verbatim>\<open>storage_map\<close> entry
  (every other entry kept), and hands the result to \<^verbatim>\<open>numba_njit\<close> exactly once, with
  the scalar signature of the function graph's declared inputs and outputs; the result is
  that one kernel.
\<close>

theorem composite_lowered_once:
  fixes E :: "('k, 'kv, 'g) externals"
  assumes fresh: "''squeeze_output'' \<notin> set (map fst kwargs)"
  shows "numba_funcify_Composite E op node kwargs =
           ([Call_create_numba_signature,
             Call_numba_funcify True (map fst (filter (\<lambda>(key, v). key \<noteq> ''storage_map'') kwargs)),
             Call_numba_njit],
            Inr (Njit (create_numba_signature (fg_inputs (fgraph op)) (fg_outputs (fgraph op)) True)
                   (numba__fastmath E) None
                   (External (numba_funcify E (fgraph op) True
                      (filter (\<lambda>(key, v). key \<noteq> ''storage_map'') kwargs))))) \<and>
         ''storage_map'' \<notin> set (map fst (filter (\<lambda>(key, v). key \<noteq> ''storage_map'') kwargs)) \<and>
         set (filter (\<lambda>(key, v). key \<noteq> ''storage_map'') kwargs) =
           {kv \<in> set kwargs. fst kv \<noteq> ''storage_map''} \<and>
         sig_inputs (create_numba_signature (fg_inputs (fgraph op)) (fg_outputs (fgraph op)) True) =
           map var_dtype (fg_inputs (fgraph op)) \<and>
         sig_outputs (create_numba_signature (fg_inputs (fgraph op)) (fg_outputs (fgraph op)) True) =
           map var_dtype (fg_outputs (fgraph op)) \<and>
         sig_force_scalar
           (create_numba_signature (fg_inputs (fgraph op)) (fg_outputs (fgraph op)) True)"
proof -
  let ?kw = "filter (\<lambda>(key, v). key \<noteq> ''storage_map'') kwargs"
  have "''squeeze_output'' \<notin> set (map fst ?kw)"
    using fresh by auto
  then have run: "numba_funcify_Composite E op node kwargs =
           ([Call_create_numba_signature, Call_numba_funcify True (map fst ?kw), Call_numba_njit],
            Inr (Njit (create_numba_signature (fg_inputs (fgraph op)) (fg_outputs (fgraph op)) True)
                   (numba__fastmath E) None
                   (External (numba_funcify E (fgraph op) True ?kw))))"
    unfolding numba_funcify_Composite_def Let_def by (simp only: if_False)
  have stripped: "''storage_map'' \<notin> set (map fst ?kw)"
    by auto
  have kept: "set ?kw = {kv \<in> set kwargs. fst kv \<noteq> ''storage_map''}"
    by auto
  show ?thesis
    using run stripped kept by (simp add: create_numba_signature_def)
qed

theorem composite_lowered_once_witness:
  "''squeeze_output'' \<notin> set (map fst outer_kwargs) \<and>
   numba_funcify_Composite demo_externals add_mul_composite composite_node outer_kwargs =
     ([Call_create_numba_signature, Call_numba_funcify True [''fgraph_name''], Call_numba_njit],
      Inr (Njit \<lparr> sig_inputs = [''float64'', ''float64''], sig_outputs = [''float64''],
                  sig_force_scalar = True \<rparr>
             True None (External ''composite'')))"
proof -
  have h: "''squeeze_output'' \<notin> set (map fst outer_kwargs)"
    by (simp add: outer_kwargs_def)
  show ?thesis
    using composite_lowered_once [OF h, of demo_externals add_mul_composite composite_node] h
    by (simp add: outer_kwargs_def demo_externals_def add_mul_composite_def
          create_numba_signature_def var_def)
qed

end
